theory Spec2Isabelle
  imports Main "HOL-Library.Sublist"
begin

section \<open>Supervisor adapters: Home Assistant control object and network payloads\<close>

text \<open>
  A shallow embedding of \<^verbatim>\<open>supervisor/homeassistant/module.py\<close> (the methods
  \<^verbatim>\<open>_hardware_events\<close>, \<^verbatim>\<open>backup\<close> and \<^verbatim>\<open>restore\<close> of the class
  \<^verbatim>\<open>HomeAssistant\<close>) and of \<^verbatim>\<open>supervisor/dbus/payloads/generate.py\<close>
  (\<^verbatim>\<open>get_connection_from_interface\<close> and \<^verbatim>\<open>interface_update_payload\<close>).
  Exceptions are values of a sum type, the collaborators the code calls (websocket,
  executor, hardware policy) are fields of an environment record, and everything the
  code does to the outside is written to an explicit world that is passed through.
\<close>

subsection \<open>Exceptions, commands and the observable world\<close>

text \<open>
  The exception classes the handlers of the module distinguish. A constructor stands for
  the class and its subclasses; \<open>InvalidArchiveMember\<close> is the error the archive
  reader of the specification gives for an unsafe member, \<open>AttributeError\<close> and
  \<open>ValueError\<close> are the built-in exceptions of an attribute read on \<^verbatim>\<open>None\<close> and
  of \<^verbatim>\<open>int()\<close> on a string that is no number, and \<open>OtherError\<close> is any exception
  outside these classes.
\<close>

datatype exn =
    HomeAssistantWSError
  | TarError
  | OSError
  | InvalidArchiveMember
  | AttributeError
  | ValueError
  | OtherError string

text \<open>
  The value of the \<^verbatim>\<open>ATTR_TYPE\<close> field of a websocket payload: a member of the enum
  \<^verbatim>\<open>WSType\<close> or a plain string, as the code writes it.
\<close>

datatype ws_type = BACKUP_START | BACKUP_END | Type string

text \<open>
  The answer of \<^verbatim>\<open>async_send_command\<close>: \<^verbatim>\<open>None\<close> or a dictionary. Only
  list-valued entries are read (\<^verbatim>\<open>configuration.get("components", [])\<close>), so a
  dictionary is an association list from keys to lists of strings.
\<close>

type_synonym response = "(string \<times> string list) list option"

datatype level = INFO | WARNING

datatype event =
    SendCommand ws_type      \<comment> \<open>\<^verbatim>\<open>websocket.async_send_command\<close> was awaited\<close>
  | SendMessage ws_type      \<comment> \<open>\<^verbatim>\<open>websocket.send_message\<close> was called\<close>
  | RunWriteTarfile          \<comment> \<open>the executor ran \<^verbatim>\<open>_write_tarfile\<close>\<close>
  | RunRestoreTarfile        \<comment> \<open>the executor ran \<^verbatim>\<open>_restore_tarfile\<close>\<close>

type_synonym archive = "string list"

record world =
  events :: "event list"                 \<comment> \<open>calls made to collaborators, oldest first\<close>
  log :: "(level \<times> string) list"         \<comment> \<open>records of \<^verbatim>\<open>_LOGGER\<close>, oldest first\<close>
  written :: "archive option"            \<comment> \<open>what the backup put into the archive\<close>
  fs :: "string \<rightharpoonup> string"              \<comment> \<open>the filesystem: path to file content\<close>

definition emit :: "event \<Rightarrow> world \<Rightarrow> world" where
  "emit e w = w\<lparr>events := events w @ [e]\<rparr>"

definition logger :: "level \<Rightarrow> string \<Rightarrow> world \<Rightarrow> world" where
  "logger l m w = w\<lparr>log := log w @ [(l, m)]\<rparr>"

text \<open>\<^verbatim>\<open>configuration.get(key, [])\<close> on a dictionary.\<close>

definition dict_get_list :: "(string \<times> string list) list \<Rightarrow> string \<Rightarrow> string list" where
  "dict_get_list d k = (case map_of d k of None \<Rightarrow> [] | Some v \<Rightarrow> v)"

subsection \<open>The environment of the control object\<close>

text \<open>
  What the methods reach through \<^verbatim>\<open>self\<close>: the hardware policy predicate
  (\<^verbatim>\<open>sys_hardware.policy.is_match_cgroup(PolicyGroup.UART, device)\<close>), the installed
  version (\<^verbatim>\<open>self._data.get(ATTR_VERSION)\<close>), the comparison of the version library
  (\<^verbatim>\<open>self.version < "2021.9.0"\<close>, which answers or raises for a version it cannot
  compare), the websocket's answer to a command, the
  result of populating the archive in the executor, the directory
  \<^verbatim>\<open>Path(self.sys_config.path_supervisor, FOLDER_HOMEASSISTANT)\<close>, what reading the
  archive handed to \<^verbatim>\<open>restore\<close> yields member by member (a member, or the exception
  of a damaged archive), and the paths the filesystem refuses to write.
\<close>

datatype member = Member string string   \<comment> \<open>path inside the archive, content\<close>

record 'dev env =
  is_match_cgroup_UART :: "'dev \<Rightarrow> bool"
  version :: "string option"
  version_lt :: "string \<Rightarrow> string \<Rightarrow> exn + bool"
  async_send_command :: "ws_type \<Rightarrow> exn + response"
  atomic_contents_add :: "exn + archive"
  origin_dir :: string
  tar_members :: "(exn + member) list"
  write_fails :: "string \<Rightarrow> bool"

subsection \<open>\<^verbatim>\<open>HomeAssistant._hardware_events\<close>\<close>

text \<open>
  \<^verbatim>\<open>
  if (not self.sys_hardware.policy.is_match_cgroup(PolicyGroup.UART, device)
      or not self.version or self.version < "2021.9.0"):
      return
  configuration = await self.sys_homeassistant.websocket.async_send_command(
      {ATTR_TYPE: "get_config"})
  if not configuration or "usb" not in configuration.get("components", []):
      return
  self.sys_homeassistant.websocket.send_message({ATTR_TYPE: "usb/scan"})
  \<close>
  The guard is evaluated left to right with short-circuit \<^verbatim>\<open>or\<close>. The version is
  \<^verbatim>\<open>None\<close> or a subclass of \<^verbatim>\<open>str\<close>, so \<^verbatim>\<open>not self.version\<close> holds for
  \<^verbatim>\<open>None\<close> and for the empty string, and the comparison is reached only with a
  version that is present and non-empty. In the same way \<^verbatim>\<open>not configuration\<close> holds
  for \<^verbatim>\<open>None\<close> and for the empty dictionary. An exception of the comparison or of
  the query is not handled here and leaves the method.
\<close>

definition guard_blocks :: "'dev env \<Rightarrow> 'dev \<Rightarrow> exn + bool" where
  "guard_blocks env device =
     (if \<not> is_match_cgroup_UART env device then Inr True
      else (case version env of
              None \<Rightarrow> Inr True
            | Some v \<Rightarrow> if v = [] then Inr True else version_lt env v ''2021.9.0''))"

definition hardware_events :: "'dev env \<Rightarrow> 'dev \<Rightarrow> world \<Rightarrow> (exn + unit) \<times> world" where
  "hardware_events env device w =
     (case guard_blocks env device of
        Inl e \<Rightarrow> (Inl e, w)
      | Inr True \<Rightarrow> (Inr (), w)
      | Inr False \<Rightarrow>
          let w1 = emit (SendCommand (Type ''get_config'')) w in
          (case async_send_command env (Type ''get_config'') of
             Inl e \<Rightarrow> (Inl e, w1)
           | Inr configuration \<Rightarrow>
               (case configuration of
                  None \<Rightarrow> (Inr (), w1)
                | Some d \<Rightarrow>
                    if d = [] \<or> ''usb'' \<notin> set (dict_get_list d ''components'')
                    then (Inr (), w1)
                    else (Inr (), emit (SendMessage (Type ''usb/scan'')) w1))))"

subsection \<open>\<^verbatim>\<open>HomeAssistant.backup\<close>\<close>

text \<open>
  The first \<^verbatim>\<open>try\<close> sends \<^verbatim>\<open>BACKUP_START\<close> and handles
  \<^verbatim>\<open>HomeAssistantWSError\<close> only: any other exception leaves the method before the
  archive is touched.
\<close>

definition notify_start :: "'dev env \<Rightarrow> world \<Rightarrow> (exn + unit) \<times> world" where
  "notify_start env w =
     (let w1 = emit (SendCommand BACKUP_START) w in
      case async_send_command env BACKUP_START of
        Inr _ \<Rightarrow> (Inr (), w1)
      | Inl e \<Rightarrow>
          if e = HomeAssistantWSError
          then (Inr (), logger WARNING
                  ''Preparing backup of Home Assistant Core failed. Check HA Core logs.'' w1)
          else (Inl e, w1))"

text \<open>
  The body of the second \<^verbatim>\<open>try\<close>: two log records around the executor call that
  runs \<^verbatim>\<open>_write_tarfile\<close>. An exception of the population skips the second record.
\<close>

definition write_tarfile :: "'dev env \<Rightarrow> world \<Rightarrow> (exn + unit) \<times> world" where
  "write_tarfile env w =
     (let w1 = logger INFO ''Backing up Home Assistant Core config folder'' w;
          w2 = emit RunWriteTarfile w1 in
      case atomic_contents_add env of
        Inl e \<Rightarrow> (Inl e, w2)
      | Inr a \<Rightarrow>
          (Inr (), logger INFO ''Backup Home Assistant Core config folder done''
                     (w2\<lparr>written := Some a\<rparr>)))"

text \<open>
  The \<^verbatim>\<open>finally\<close> block: it runs whatever the body did, with the body's pending
  result \<open>r\<close>. \<^verbatim>\<open>HomeAssistantWSError\<close> of the send is logged and the pending result
  stands; any other exception raised here replaces it, as Python does.
\<close>

definition notify_end :: "'dev env \<Rightarrow> (exn + unit) \<Rightarrow> world \<Rightarrow> (exn + unit) \<times> world" where
  "notify_end env r w =
     (let w1 = emit (SendCommand BACKUP_END) w in
      case async_send_command env BACKUP_END of
        Inr _ \<Rightarrow> (r, w1)
      | Inl e \<Rightarrow>
          if e = HomeAssistantWSError
          then (r, logger WARNING
                  ''Error during Home Assistant Core backup. Check HA Core logs.'' w1)
          else (Inl e, w1))"

definition backup :: "'dev env \<Rightarrow> world \<Rightarrow> (exn + unit) \<times> world" where
  "backup env w =
     (case notify_start env w of
        (Inl e, w1) \<Rightarrow> (Inl e, w1)
      | (Inr _, w1) \<Rightarrow>
          (case write_tarfile env w1 of (r, w2) \<Rightarrow> notify_end env r w2))"

subsection \<open>\<^verbatim>\<open>HomeAssistant.restore\<close>\<close>

text \<open>\<^verbatim>\<open>str.split(sep)\<close> with a one-character separator.\<close>

fun split_on :: "char \<Rightarrow> string \<Rightarrow> string list" where
  "split_on sep [] = [[]]"
| "split_on sep (c # cs) =
     (if c = sep then [] # split_on sep cs
      else (case split_on sep cs of
              [] \<Rightarrow> [[c]]
            | x # xs \<Rightarrow> (c # x) # xs))"

text \<open>
  Modelled from the spec: the validation of an archive member (the archive reader
  \<^verbatim>\<open>SecureTarFile\<close> of \<^verbatim>\<open>supervisor/utils/tar.py\<close> and the \<^verbatim>\<open>extractall\<close> of the
  handle it yields are not among the sources). The specification asks for "no path
  traversal outside destinationDir, no absolute paths": a path is absolute when it
  starts with a slash, and it leaves the destination when, reading its components from
  the left, a \<^verbatim>\<open>..\<close> is met at depth 0.
\<close>

fun climbs_out :: "nat \<Rightarrow> string list \<Rightarrow> bool" where
  "climbs_out d [] = False"
| "climbs_out d (c # cs) =
     (if c = ''..'' then (case d of 0 \<Rightarrow> True | Suc d' \<Rightarrow> climbs_out d' cs)
      else if c = [] \<or> c = ''.'' then climbs_out d cs
      else climbs_out (Suc d) cs)"

text \<open>Modelled from the spec: "no absolute paths", a path that starts with a slash.\<close>

definition is_absolute :: "string \<Rightarrow> bool" where
  "is_absolute p = (case p of [] \<Rightarrow> False | c # _ \<Rightarrow> c = CHR ''/'')"

text \<open>
  Modelled from the spec: a member the validation accepts, neither absolute nor leaving
  the destination.
\<close>

definition secure_member :: "string \<Rightarrow> bool" where
  "secure_member p = (\<not> is_absolute p \<and> \<not> climbs_out 0 (split_on CHR ''/'' p))"

text \<open>
  Modelled from the spec: the validating extract of the archive reader (not among the
  sources). "Extraction must validate each archive member before writing [...] reject
  the whole operation on the first invalid member", and a failed extraction "leaves the
  destination directory in the state it was in before extraction began (no partial
  write visible)". Members are taken in archive order into a staged copy of the
  filesystem; a damaged archive raises what reading it raises, an unsafe member raises
  \<open>InvalidArchiveMember\<close>, a refused write raises \<open>OSError\<close>; the staged copy replaces
  the filesystem only when every member went through.
\<close>

fun stage_members ::
  "'dev env \<Rightarrow> (string \<rightharpoonup> string) \<Rightarrow> (exn + member) list \<Rightarrow> exn + (string \<rightharpoonup> string)" where
  "stage_members env st [] = Inr st"
| "stage_members env st (Inl e # ms) = Inl e"
| "stage_members env st (Inr (Member p c) # ms) =
     (if \<not> secure_member p then Inl InvalidArchiveMember
      else if write_fails env (origin_dir env @ ''/'' @ p) then Inl OSError
      else stage_members env (st(origin_dir env @ ''/'' @ p \<mapsto> c)) ms)"

text \<open>
  Modelled from the spec: the extract operation of the archive reader as
  \<^verbatim>\<open>_restore_tarfile\<close> calls it, with its result and the filesystem it leaves: the
  staged copy after a success, the filesystem it found after a failure.
\<close>

definition extractall :: "'dev env \<Rightarrow> (string \<rightharpoonup> string) \<Rightarrow> (exn + unit) \<times> (string \<rightharpoonup> string)" where
  "extractall env files =
     (case stage_members env files (tar_members env) of
        Inl e \<Rightarrow> (Inl e, files)
      | Inr files' \<Rightarrow> (Inr (), files'))"

text \<open>
  \<^verbatim>\<open>_restore_tarfile\<close>, run in the executor:
  \<^verbatim>\<open>with secure_tar_file as tar_file: tar_file.extractall(path=origin_dir, members=tar_file)\<close>.
\<close>

definition restore_tarfile :: "'dev env \<Rightarrow> world \<Rightarrow> (exn + unit) \<times> world" where
  "restore_tarfile env w =
     (let w1 = emit RunRestoreTarfile w in
      case extractall env (fs w1) of (r, files') \<Rightarrow> (r, w1\<lparr>fs := files'\<rparr>))"

text \<open>
  \<^verbatim>\<open>
  try:
      _LOGGER.info("Restore Home Assistant Core config folder")
      await self.sys_run_in_executor(_restore_tarfile)
      _LOGGER.info("Restore Home Assistant Core config folder done")
  except (tarfile.TarError, OSError) as err:
      _LOGGER.warning("Can't restore Home Assistant Core config folder: %s", err)
  \<close>
  The handler takes \<^verbatim>\<open>TarError\<close> and \<^verbatim>\<open>OSError\<close>; after it the method returns
  \<^verbatim>\<open>None\<close> as it does after a restore that went through. Every other exception
  leaves the method.
\<close>

definition restore :: "'dev env \<Rightarrow> world \<Rightarrow> (exn + unit) \<times> world" where
  "restore env w =
     (let w1 = logger INFO ''Restore Home Assistant Core config folder'' w in
      case restore_tarfile env w1 of
        (Inr _, w2) \<Rightarrow>
          (Inr (), logger INFO ''Restore Home Assistant Core config folder done'' w2)
      | (Inl e, w2) \<Rightarrow>
          if e = TarError \<or> e = OSError
          then (Inr (), logger WARNING
                  ''Can't restore Home Assistant Core config folder: %s'' w2)
          else (Inl e, w2))"

subsection \<open>Python strings, numbers and the address classes\<close>

text \<open>
  A \<^verbatim>\<open>str\<close> is a \<open>string\<close>, each character standing for the code point of its
  number; \<^verbatim>\<open>bytes\<close> is a list of numbers below 256.
\<close>

type_synonym bytes = "nat list"

text \<open>\<^verbatim>\<open>sep.join(xs)\<close>.\<close>

fun join :: "string \<Rightarrow> string list \<Rightarrow> string" where
  "join sep [] = []"
| "join sep [x] = x"
| "join sep (x # y # ys) = x @ sep @ join sep (y # ys)"

text \<open>
  \<^verbatim>\<open>str(n)\<close> and \<^verbatim>\<open>'%x' % n\<close> of a number that is not negative: the digits in
  base 10 and in base 16, most significant first, without leading zeros.
\<close>

definition digit_char :: "nat \<Rightarrow> char" where
  "digit_char d = ''0123456789abcdef'' ! d"

fun str_nat :: "nat \<Rightarrow> string" where
  "str_nat n = (if n < 10 then [digit_char n] else str_nat (n div 10) @ [digit_char (n mod 10)])"

fun hex_nat :: "nat \<Rightarrow> string" where
  "hex_nat n = (if n < 16 then [digit_char n] else hex_nat (n div 16) @ [digit_char (n mod 16)])"

declare str_nat.simps [simp del] hex_nat.simps [simp del]

text \<open>
  \<^verbatim>\<open>int(s)\<close> on a string of decimal digits; \<^verbatim>\<open>ValueError\<close> on a string that has
  another character or none. (Python also reads a sign, surrounding blanks and
  underscores between digits; the one argument the code passes, the part of
  \<^verbatim>\<open>with_prefixlen\<close> behind the last slash, has none of them.)
\<close>

definition digit_val :: "char \<Rightarrow> nat option" where
  "digit_val c =
     (let n = (of_char c :: nat) in if 48 \<le> n \<and> n \<le> 57 then Some (n - 48) else None)"

fun int_digits :: "nat \<Rightarrow> string \<Rightarrow> exn + nat" where
  "int_digits acc [] = Inr acc"
| "int_digits acc (c # cs) =
     (case digit_val c of
        None \<Rightarrow> Inl ValueError
      | Some d \<Rightarrow> int_digits (10 * acc + d) cs)"

definition py_int :: "string \<Rightarrow> exn + nat" where
  "py_int s = (if s = [] then Inl ValueError else int_digits 0 s)"

text \<open>
  The address classes of Python's \<^verbatim>\<open>ipaddress\<close> module. An address is the integer
  the class holds (\<^verbatim>\<open>int(ip_address)\<close>), below \<open>2 ^ 32\<close> for \<^verbatim>\<open>IPv4Address\<close> and
  below \<open>2 ^ 128\<close> for \<^verbatim>\<open>IPv6Address\<close>; an interface (\<^verbatim>\<open>IPv4Interface\<close>,
  \<^verbatim>\<open>IPv6Interface\<close>) is an address with a prefix length.
\<close>

record IPInterface =
  ip :: nat
  prefixlen :: nat

text \<open>\<^verbatim>\<open>ip_address.packed\<close>: the bytes of the address, most significant first.\<close>

definition packed :: "nat \<Rightarrow> nat \<Rightarrow> bytes" where
  "packed len a = map (\<lambda>i. a div 256 ^ (len - 1 - i) mod 256) [0..<len]"

text \<open>\<^verbatim>\<open>str(IPv4Address)\<close>: the four bytes in decimal, joined by dots.\<close>

definition str_ipv4 :: "nat \<Rightarrow> string" where
  "str_ipv4 a = join ''.'' (map str_nat (packed 4 a))"

text \<open>
  \<^verbatim>\<open>str(IPv6Address)\<close> (the method \<^verbatim>\<open>_string_from_ip_int\<close>): the eight groups of 16
  bits in hexadecimal, the longest run of at least two groups \<^verbatim>\<open>'0'\<close> (the leftmost
  among the longest) replaced by one empty group, joined by colons. The scan below is
  the loop of \<^verbatim>\<open>_compress_hextets\<close> with its four variables
  \<^verbatim>\<open>best_doublecolon_start\<close>, \<^verbatim>\<open>best_doublecolon_len\<close>, \<^verbatim>\<open>doublecolon_start\<close>,
  \<^verbatim>\<open>doublecolon_len\<close>; a start of \<open>-1\<close> says that no run is open. Scope ids
  (\<^verbatim>\<open>fe80::1%eth0\<close>) are not part of the model.
\<close>

definition hextets :: "nat \<Rightarrow> string list" where
  "hextets a = map (\<lambda>i. hex_nat (a div 65536 ^ (7 - i) mod 65536)) [0..<8]"

fun scan_hextets :: "int \<times> nat \<times> int \<times> nat \<Rightarrow> nat \<Rightarrow> string list \<Rightarrow> int \<times> nat \<times> int \<times> nat" where
  "scan_hextets st index [] = st"
| "scan_hextets (best_start, best_len, start, len) index (hextet # rest) =
     (if hextet = ''0'' then
        let len' = len + 1;
            start' = (if start = -1 then int index else start)
        in if len' > best_len
           then scan_hextets (start', len', start', len') (index + 1) rest
           else scan_hextets (best_start, best_len, start', len') (index + 1) rest
      else scan_hextets (best_start, best_len, -1, 0) (index + 1) rest)"

definition compress_hextets :: "string list \<Rightarrow> string list" where
  "compress_hextets hs =
     (case scan_hextets (-1, 0, -1, 0) 0 hs of (best_start, best_len, _, _) \<Rightarrow>
        if best_len > 1 then
          let best_end = nat best_start + best_len;
              hs1 = (if best_end = length hs then hs @ [[]] else hs);
              hs2 = take (nat best_start) hs1 @ [[]] @ drop best_end hs1
          in if best_start = 0 then [] # hs2 else hs2
        else hs)"

definition str_ipv6 :: "nat \<Rightarrow> string" where
  "str_ipv6 a = join '':'' (compress_hextets (hextets a))"

text \<open>\<^verbatim>\<open>with_prefixlen\<close>: the address, a slash, the prefix length in decimal.\<close>

definition with_prefixlen4 :: "IPInterface \<Rightarrow> string" where
  "with_prefixlen4 a = str_ipv4 (ip a) @ ''/'' @ str_nat (prefixlen a)"

definition with_prefixlen6 :: "IPInterface \<Rightarrow> string" where
  "with_prefixlen6 a = str_ipv6 (ip a) @ ''/'' @ str_nat (prefixlen a)"

subsection \<open>The domain objects and the typed document\<close>

text \<open>
  The classes of \<^verbatim>\<open>supervisor/host/network.py\<close> the two generators read, with the
  attributes they read. \<^verbatim>\<open>InterfaceType\<close>, the method of an address block and the
  \<^verbatim>\<open>auth\<close> of a wifi block are enums whose members are strings, which the code
  compares with string literals: they are the strings they stand for. \<^verbatim>\<open>gateway\<close>,
  \<^verbatim>\<open>psk\<close>, \<^verbatim>\<open>vlan\<close> and \<^verbatim>\<open>wifi\<close> may be \<^verbatim>\<open>None\<close>.
\<close>

record IpConfig =
  ip_method :: string           \<comment> \<open>\<^verbatim>\<open>.method\<close>\<close>
  address :: "IPInterface list"
  gateway :: "nat option"
  nameservers :: "nat list"

record VlanConfig =
  vlan_id :: nat                \<comment> \<open>\<^verbatim>\<open>vlan.id\<close>\<close>
  vlan_interface :: string      \<comment> \<open>\<^verbatim>\<open>vlan.interface\<close>\<close>

record WifiConfig =
  ssid :: string
  auth :: string
  psk :: "string option"

record Interface =
  name :: string
  type :: string
  ipv4 :: IpConfig
  ipv6 :: IpConfig
  vlan :: "VlanConfig option"
  wifi :: "WifiConfig option"

text \<open>
  \<^verbatim>\<open>Variant(signature, value)\<close> of \<^verbatim>\<open>dbus_next\<close>: a signature string and a Python
  value. It is a constructor here: whatever the library checks of a value against its
  signature when the object is made is outside the model. A dictionary keeps its keys
  in the order of their first assignment.
\<close>

datatype pyval =
    PStr string
  | PInt int
  | PBytes bytes
  | PList "pyval list"
  | PDict "(string \<times> variant) list"
and variant = Variant string pyval

type_synonym dict = "(string \<times> variant) list"

text \<open>\<^verbatim>\<open>d[k] = v\<close>: the value of a key that is there is replaced in place, a new key goes last.\<close>

fun setitem :: "'k \<Rightarrow> 'v \<Rightarrow> ('k \<times> 'v) list \<Rightarrow> ('k \<times> 'v) list" where
  "setitem k v [] = [(k, v)]"
| "setitem k v ((k', v') # d) = (if k' = k then (k, v) # d else (k', v') # setitem k v d)"

text \<open>
  What one call of a generator takes from outside. An environment belongs to one call:
  \<^verbatim>\<open>uuid4()\<close> draws anew in every call, so a later call has an environment of its
  own, with a draw of its own.
  \<^item> \<open>uuid4\<close>: the string \<^verbatim>\<open>str(uuid4())\<close> gives in this call;
  \<^item> \<open>htonl\<close>: the byte order conversion \<^verbatim>\<open>socket.htonl\<close> of the host;
  \<^item> \<open>template_load\<close>: the exception of reading and parsing the template file
    \<^verbatim>\<open>interface_update.tmpl\<close>
    (\<^verbatim>\<open>env.from_string(INTERFACE_UPDATE_TEMPLATE.read_text())\<close>), or \<open>None\<close> when
    that goes through;
  \<^item> \<open>template_render\<close>: what \<^verbatim>\<open>template.render(interface=..., name=..., uuid=...)\<close>
    of \<^verbatim>\<open>jinja2\<close> (with the two filters) gives for an interface, a name and a uuid:
    the text, or the exception it raises.
\<close>

record payload_env =
  uuid4 :: string
  htonl :: "nat \<Rightarrow> nat"
  template_load :: "exn option"
  template_render :: "Interface \<Rightarrow> string \<Rightarrow> string \<Rightarrow> exn + string"

text \<open>\<^verbatim>\<open>str(x)\<close> of an address that may be \<^verbatim>\<open>None\<close>.\<close>

definition str_opt :: "(nat \<Rightarrow> string) \<Rightarrow> nat option \<Rightarrow> string" where
  "str_opt f g = (case g of None \<Rightarrow> ''None'' | Some a \<Rightarrow> f a)"

subsection \<open>\<^verbatim>\<open>get_connection_from_interface\<close>\<close>

text \<open>
  \<^verbatim>\<open>
  if not name or not name.startswith("Supervisor"):
      name = f"Supervisor {interface.name}"
  if interface.type == InterfaceType.VLAN:
      name = f"{name}.{interface.vlan.id}"
  \<close>
  \<^verbatim>\<open>InterfaceType.VLAN\<close> is the member whose string is \<^verbatim>\<open>vlan\<close>, the one the
  function compares with further down (\<^verbatim>\<open>interface.type == "vlan"\<close>). Reading
  \<^verbatim>\<open>interface.vlan.id\<close> raises \<^verbatim>\<open>AttributeError\<close> when the vlan block is
  \<^verbatim>\<open>None\<close>.
\<close>

definition generate_name :: "Interface \<Rightarrow> string option \<Rightarrow> exn + string" where
  "generate_name interface name_arg =
     (let name1 = (case name_arg of
                     None \<Rightarrow> ''Supervisor '' @ name interface
                   | Some n \<Rightarrow> if n = [] \<or> \<not> prefix ''Supervisor'' n
                              then ''Supervisor '' @ name interface else n)
      in if type interface = ''vlan'' then
           (case vlan interface of
              None \<Rightarrow> Inl AttributeError
            | Some v \<Rightarrow> Inr (name1 @ ''.'' @ str_nat (vlan_id v)))
         else Inr name1)"

definition connection_type :: "Interface \<Rightarrow> string" where
  "connection_type interface =
     (if type interface = ''ethernet'' then ''802-3-ethernet''
      else if type interface = ''wireless'' then ''802-11-wireless''
      else type interface)"

definition generate_uuid :: "payload_env \<Rightarrow> string option \<Rightarrow> string" where
  "generate_uuid env uuid_arg =
     (case uuid_arg of
        None \<Rightarrow> uuid4 env
      | Some u \<Rightarrow> if u = [] then uuid4 env else u)"

text \<open>
  The dictionaries the function creates are objects: \<^verbatim>\<open>conn["ipv4"] = ipv4\<close> stores a
  reference, and what is assigned to \<^verbatim>\<open>ipv4\<close> or \<^verbatim>\<open>wireless\<close> after that
  statement is seen through \<^verbatim>\<open>conn\<close>. So \<^verbatim>\<open>conn\<close> maps section names to
  references, a heap maps references to dictionaries, and the returned document is
  read off the heap at the end.
\<close>

datatype ref =
    R_connection             \<comment> \<open>the dictionary \<^verbatim>\<open>connection\<close>\<close>
  | R_ipv4                   \<comment> \<open>\<^verbatim>\<open>ipv4\<close>\<close>
  | R_ipv6                   \<comment> \<open>\<^verbatim>\<open>ipv6\<close>\<close>
  | R_ethernet               \<comment> \<open>the literal assigned to \<^verbatim>\<open>conn["802-3-ethernet"]\<close>\<close>
  | R_vlan                   \<comment> \<open>the literal assigned to \<^verbatim>\<open>conn["vlan"]\<close>\<close>
  | R_wireless               \<comment> \<open>\<^verbatim>\<open>wireless\<close>\<close>
  | R_wireless_security      \<comment> \<open>\<^verbatim>\<open>wireless_security\<close>\<close>

record frame =
  conn :: "(string \<times> ref) list"
  heap :: "ref \<Rightarrow> dict"

definition assign :: "ref \<Rightarrow> (string \<times> variant) list \<Rightarrow> frame \<Rightarrow> frame" where
  \<comment> \<open>\<^verbatim>\<open>d[k1] = v1; d[k2] = v2; ...\<close> on the dictionary behind a reference, in this order\<close>
  "assign r kvs fr = fr\<lparr>heap := (heap fr)(r := fold (\<lambda>(k, v). setitem k v) kvs (heap fr r))\<rparr>"

definition link :: "string \<Rightarrow> ref \<Rightarrow> frame \<Rightarrow> frame" where
  \<comment> \<open>\<^verbatim>\<open>conn[k] = d\<close>\<close>
  "link k r fr = fr\<lparr>conn := setitem k r (conn fr)\<rparr>"

definition resolve :: "frame \<Rightarrow> (string \<times> dict) list" where
  "resolve fr = map (\<lambda>(k, r). (k, heap fr r)) (conn fr)"

text \<open>
  The two loops that build \<^verbatim>\<open>adressdata\<close>. \<^verbatim>\<open>split("/")[-1]\<close> is the last element
  of a list that is never empty. The IPv6 loop skips (\<^verbatim>\<open>continue\<close>) an address whose
  \<^verbatim>\<open>with_prefixlen\<close> starts with the text \<^verbatim>\<open>fe80::\<close>.
\<close>

definition address_entry :: "string \<Rightarrow> nat \<Rightarrow> pyval" where
  "address_entry a p =
     PDict [(''address'', Variant ''s'' (PStr a)), (''prefix'', Variant ''u'' (PInt (int p)))]"

fun adressdata4 :: "IPInterface list \<Rightarrow> exn + pyval list" where
  "adressdata4 [] = Inr []"
| "adressdata4 (a # as) =
     (case py_int (last (split_on CHR ''/'' (with_prefixlen4 a))) of
        Inl e \<Rightarrow> Inl e
      | Inr p \<Rightarrow>
          (case adressdata4 as of
             Inl e \<Rightarrow> Inl e
           | Inr rest \<Rightarrow> Inr (address_entry (str_ipv4 (ip a)) p # rest)))"

fun adressdata6 :: "IPInterface list \<Rightarrow> exn + pyval list" where
  "adressdata6 [] = Inr []"
| "adressdata6 (a # as) =
     (if prefix ''fe80::'' (with_prefixlen6 a) then adressdata6 as
      else
        (case py_int (last (split_on CHR ''/'' (with_prefixlen6 a))) of
           Inl e \<Rightarrow> Inl e
         | Inr p \<Rightarrow>
             (case adressdata6 as of
                Inl e \<Rightarrow> Inl e
              | Inr rest \<Rightarrow> Inr (address_entry (str_ipv6 (ip a)) p # rest))))"

text \<open>The block from \<^verbatim>\<open>ipv4 = { }\<close> to \<^verbatim>\<open>conn["ipv4"] = ipv4\<close>.\<close>

definition ipv4_block :: "payload_env \<Rightarrow> Interface \<Rightarrow> frame \<Rightarrow> exn + frame" where
  "ipv4_block env interface fr =
     (if ip_method (ipv4 interface) = ''auto'' then
        Inr (link ''ipv4'' R_ipv4 (assign R_ipv4 [(''method'', Variant ''s'' (PStr ''auto''))] fr))
      else if ip_method (ipv4 interface) = ''disabled'' then
        Inr (link ''ipv4'' R_ipv4 (assign R_ipv4 [(''method'', Variant ''s'' (PStr ''disabled''))] fr))
      else
        (case adressdata4 (address (ipv4 interface)) of
           Inl e \<Rightarrow> Inl e
         | Inr adressdata \<Rightarrow>
             Inr (link ''ipv4'' R_ipv4 (assign R_ipv4
               [(''method'', Variant ''s'' (PStr ''manual'')),
                (''dns'', Variant ''au''
                   (PList (map (\<lambda>a. PInt (int (htonl env a))) (nameservers (ipv4 interface))))),
                (''address-data'', Variant ''aa{sv}'' (PList adressdata)),
                (''gateway'', Variant ''s'' (PStr (str_opt str_ipv4 (gateway (ipv4 interface)))))]
               fr))))"

text \<open>
  The block from \<^verbatim>\<open>ipv6 = {}\<close> to \<^verbatim>\<open>conn["ipv6"] = ipv6\<close>. Its last two
  assignments of the manual branch are written as the source has them:
  \<^verbatim>\<open>
  ipv4["address-data"] = Variant("(a{sv})", adressdata)
  ipv4["gateway"] = Variant("s", str(interface.ipv6.gateway))
  \<close>
\<close>

definition ipv6_block :: "payload_env \<Rightarrow> Interface \<Rightarrow> frame \<Rightarrow> exn + frame" where
  "ipv6_block env interface fr =
     (if ip_method (ipv6 interface) = ''auto'' then
        Inr (link ''ipv6'' R_ipv6 (assign R_ipv6 [(''method'', Variant ''s'' (PStr ''auto''))] fr))
      else if ip_method (ipv6 interface) = ''disabled'' then
        Inr (link ''ipv6'' R_ipv6 (assign R_ipv6 [(''method'', Variant ''s'' (PStr ''disabled''))] fr))
      else
        (case adressdata6 (address (ipv6 interface)) of
           Inl e \<Rightarrow> Inl e
         | Inr adressdata \<Rightarrow>
             Inr (link ''ipv6'' R_ipv6
               (assign R_ipv4
                  [(''address-data'', Variant ''(a{sv})'' (PList adressdata)),
                   (''gateway'', Variant ''s'' (PStr (str_opt str_ipv6 (gateway (ipv6 interface)))))]
               (assign R_ipv6
                  [(''method'', Variant ''s'' (PStr ''manual'')),
                   (''dns'', Variant ''aay''
                      (PList (map (\<lambda>a. PBytes (packed 16 a)) (nameservers (ipv6 interface)))))]
                  fr)))))"

text \<open>
  \<^verbatim>\<open>str.encode("UTF-8")\<close> for code points below 256: one byte below 128, two bytes
  from there on.
\<close>

definition utf8_encode :: "string \<Rightarrow> bytes" where
  "utf8_encode s =
     concat (map (\<lambda>c. let n = (of_char c :: nat) in
                        if n < 128 then [n] else [192 + n div 64, 128 + n mod 64]) s)"

text \<open>
  The chain \<^verbatim>\<open>if interface.type == "ethernet": ... elif ... "vlan": ... elif ...
  "wireless": ...\<close>. \<^verbatim>\<open>conn["802-11-wireless"] = wireless\<close> comes before
  \<^verbatim>\<open>wireless["security"] = ...\<close>, which the section shows all the same. Reading an
  attribute of a vlan or wifi block that is \<^verbatim>\<open>None\<close> raises \<^verbatim>\<open>AttributeError\<close>.
\<close>

definition wireless_security_block :: "WifiConfig \<Rightarrow> frame \<Rightarrow> frame" where
  "wireless_security_block w fr =
     (if auth w \<noteq> ''open'' then
        let fr1 = assign R_wireless
                    [(''security'', Variant ''s'' (PStr ''802-11-wireless-security''))] fr;
            fr2 = (if auth w = ''wep'' then
                     assign R_wireless_security
                       [(''auth-alg'', Variant ''s'' (PStr ''none'')),
                        (''key-mgmt'', Variant ''s'' (PStr ''open''))] fr1
                   else if auth w = ''wpa-psk'' then
                     assign R_wireless_security
                       [(''auth-alg'', Variant ''s'' (PStr ''open'')),
                        (''key-mgmt'', Variant ''s'' (PStr ''wpa-psk''))] fr1
                   else fr1);
            fr3 = (case psk w of
                     None \<Rightarrow> fr2
                   | Some k \<Rightarrow>
                       if k = [] then fr2
                       else assign R_wireless_security [(''psk'', Variant ''s'' (PStr k))] fr2)
        in link ''802-11-wireless-security'' R_wireless_security fr3
      else fr)"

definition medium_block :: "Interface \<Rightarrow> frame \<Rightarrow> exn + frame" where
  "medium_block interface fr =
     (if type interface = ''ethernet'' then
        Inr (link ''802-3-ethernet'' R_ethernet
               (assign R_ethernet
                  [(''assigned-mac-address'', Variant ''s'' (PStr ''preserve''))] fr))
      else if type interface = ''vlan'' then
        (case vlan interface of
           None \<Rightarrow> Inl AttributeError
         | Some v \<Rightarrow>
             Inr (link ''vlan'' R_vlan
                    (assign R_vlan
                       [(''id'', Variant ''u'' (PInt (int (vlan_id v)))),
                        (''parent'', Variant ''s'' (PStr (vlan_interface v)))] fr)))
      else if type interface = ''wireless'' then
        (case wifi interface of
           None \<Rightarrow> Inl AttributeError
         | Some w \<Rightarrow>
             Inr (wireless_security_block w
                    (link ''802-11-wireless'' R_wireless
                       (assign R_wireless
                          [(''assigned-mac-address'', Variant ''s'' (PStr ''preserve'')),
                           (''ssid'', Variant ''ay'' (PBytes (utf8_encode (ssid w)))),
                           (''mode'', Variant ''s'' (PStr ''infrastructure'')),
                           (''powersave'', Variant ''i'' (PInt 1))] fr))))
      else Inr fr)"

definition connection_block :: "Interface \<Rightarrow> string \<Rightarrow> string \<Rightarrow> frame \<Rightarrow> frame" where
  "connection_block interface name' uuid' fr =
     link ''connection'' R_connection
       (assign R_connection
          [(''id'', Variant ''s'' (PStr name')),
           (''interface-name'', Variant ''s'' (PStr (name interface))),
           (''type'', Variant ''s'' (PStr (connection_type interface))),
           (''uuid'', Variant ''s'' (PStr uuid')),
           (''llmnr'', Variant ''i'' (PInt 2)),
           (''mdns'', Variant ''i'' (PInt 2))] fr)"

definition get_connection_from_interface ::
  "payload_env \<Rightarrow> Interface \<Rightarrow> string option \<Rightarrow> string option \<Rightarrow> exn + (string \<times> dict) list" where
  "get_connection_from_interface env interface name_arg uuid_arg =
     (case generate_name interface name_arg of
        Inl e \<Rightarrow> Inl e
      | Inr name' \<Rightarrow>
          let fr1 = connection_block interface name' (generate_uuid env uuid_arg)
                      \<lparr>conn = [], heap = (\<lambda>_. [])\<rparr>
          in (case ipv4_block env interface fr1 of
                Inl e \<Rightarrow> Inl e
              | Inr fr2 \<Rightarrow>
                  (case ipv6_block env interface fr2 of
                     Inl e \<Rightarrow> Inl e
                   | Inr fr3 \<Rightarrow>
                       (case medium_block interface fr3 of
                          Inl e \<Rightarrow> Inl e
                        | Inr fr4 \<Rightarrow> Inr (resolve fr4)))))"

subsection \<open>\<^verbatim>\<open>interface_update_payload\<close>\<close>

text \<open>
  \<^verbatim>\<open>
  if interface.wifi:
      interface.wifi.ssid = ", ".join(
          [f"0x{x}" for x in interface.wifi.ssid.encode().hex(",").split(",")])
  \<close>
  \<^verbatim>\<open>bytes.hex(",")\<close> gives two hexadecimal digits per byte with a comma between
  bytes, and the empty string for no bytes.
\<close>

definition hex_byte :: "nat \<Rightarrow> string" where
  "hex_byte b = [digit_char (b div 16), digit_char (b mod 16)]"

definition fix_ssid :: "string \<Rightarrow> string" where
  "fix_ssid s =
     join '', '' (map (\<lambda>x. ''0x'' @ x)
                    (split_on CHR '','' (join '','' (map hex_byte (utf8_encode s)))))"

text \<open>
  The assignment is to an attribute of the object the caller passed, so the function
  returns, beside its result, the interface as the caller finds it afterwards. The
  statements in the order of the source: the template is loaded, the uuid is drawn when
  none is given, the name is derived, the SSID is assigned, the template is rendered.
  An exception of the load or of the name leaves the object as it was; an exception of
  the render comes after the assignment and leaves the object with the rewritten SSID.
\<close>

definition interface_update_payload ::
  "payload_env \<Rightarrow> Interface \<Rightarrow> string option \<Rightarrow> string option \<Rightarrow> (exn + string) \<times> Interface" where
  "interface_update_payload env interface name_arg uuid_arg =
     (case template_load env of
        Some e \<Rightarrow> (Inl e, interface)
      | None \<Rightarrow>
          let uuid' = generate_uuid env uuid_arg in
          (case generate_name interface name_arg of
             Inl e \<Rightarrow> (Inl e, interface)
           | Inr name' \<Rightarrow>
               let interface' =
                     (case wifi interface of
                        None \<Rightarrow> interface
                      | Some w \<Rightarrow> interface\<lparr>wifi := Some (w\<lparr>ssid := fix_ssid (ssid w)\<rparr>)\<rparr>)
               in (template_render env interface' name' uuid', interface')))"

subsection \<open>Notions of the specification\<close>

text \<open>
  The link-local range \<^verbatim>\<open>fe80::/10\<close>: the addresses whose ten leading bits are
  \<^verbatim>\<open>1111111010\<close>, that is \<open>1018\<close>.
\<close>

definition is_link_local :: "nat \<Rightarrow> bool" where
  "is_link_local a = (a div 2 ^ 118 = 1018)"

text \<open>
  The invariant of the data model: an interface of type vlan has a vlan block, one of
  type wireless has a wifi block.
\<close>

definition valid_interface :: "Interface \<Rightarrow> bool" where
  "valid_interface i =
     ((type i = ''vlan'' \<longrightarrow> vlan i \<noteq> None) \<and> (type i = ''wireless'' \<longrightarrow> wifi i \<noteq> None))"

subsection \<open>Concrete inputs\<close>

text \<open>
  Environments and a world used to run the definitions: a websocket that fails every
  command, an archive writer that fails, a websocket whose \<^verbatim>\<open>BACKUP_END\<close> send raises
  an exception that is not the channel's, an instance that answers the configuration
  query, and two archives to restore, one with a member that climbs out of the
  destination and one that is damaged behind its first member.
\<close>

definition world0 :: world where
  "world0 = \<lparr>events = [], log = [], written = None, fs = Map.empty\<rparr>"

definition channel_down :: "unit env" where
  "channel_down =
     \<lparr>is_match_cgroup_UART = (\<lambda>_. True),
      version = Some ''2021.8.0'',
      version_lt = (\<lambda>a b. Inr (a = ''2021.8.0'' \<and> b = ''2021.9.0'')),
      async_send_command = (\<lambda>_. Inl HomeAssistantWSError),
      atomic_contents_add = Inr [''./configuration.yaml''],
      origin_dir = ''/data/homeassistant'',
      tar_members = [Inr (Member ''configuration.yaml'' ''a''),
                     Inr (Member ''../../etc/passwd'' ''x'')],
      write_fails = (\<lambda>_. False)\<rparr>"

definition failing_writer :: "unit env" where
  "failing_writer = channel_down\<lparr>atomic_contents_add := Inl OSError\<rparr>"

definition end_breaks :: "unit env" where
  "end_breaks =
     failing_writer
       \<lparr>async_send_command :=
          (\<lambda>t. if t = BACKUP_END then Inl (OtherError ''RuntimeError'') else Inr None)\<rparr>"

definition usb_ready :: "unit env" where
  "usb_ready =
     channel_down
       \<lparr>version := Some ''2021.12.0'',
        async_send_command := (\<lambda>_. Inr (Some [(''components'', [''zha'', ''usb''])]))\<rparr>"


text \<open>
  For the generators: a template that prints the name, the uuid and the SSID it is
  given, a host that is little-endian, the environment of a first call, the one of a
  second call with another draw of the uuid, one whose render raises, and five
  interfaces.
\<close>

definition stand_in_template :: "Interface \<Rightarrow> string \<Rightarrow> string \<Rightarrow> exn + string" where
  "stand_in_template i n u =
     Inr (''id='' @ n @ '' uuid='' @ u @ '' ssid=''
            @ (case wifi i of None \<Rightarrow> [] | Some w \<Rightarrow> ssid w))"

definition payload0 :: payload_env where
  "payload0 =
     \<lparr>uuid4 = ''00000000-0000-4000-8000-000000000000'',
      htonl = (\<lambda>n. n mod 256 * 16777216 + n div 256 mod 256 * 65536
                    + n div 65536 mod 256 * 256 + n div 16777216 mod 256),
      template_load = None,
      template_render = stand_in_template\<rparr>"

definition payload1 :: payload_env where
  "payload1 = payload0\<lparr>uuid4 := ''11111111-1111-4111-8111-111111111111''\<rparr>"

definition render_raises :: payload_env where
  "render_raises = payload0\<lparr>template_render := (\<lambda>i n u. Inl (OtherError ''UndefinedError''))\<rparr>"

definition auto_config :: IpConfig where
  "auto_config = \<lparr>ip_method = ''auto'', address = [], gateway = None, nameservers = []\<rparr>"

definition eth0 :: Interface where
  "eth0 =
     \<lparr>name = ''eth0'', type = ''ethernet'',
      ipv4 = auto_config,
      ipv6 = \<lparr>ip_method = ''manual'',
              address = [\<lparr>ip = 0x20010db8000000000000000000000001, prefixlen = 64\<rparr>],
              gateway = Some 0x20010db8000000000000000000000fff,
              nameservers = [0x20010db8000000000000000000000053]\<rparr>,
      vlan = None, wifi = None\<rparr>"

definition eth1 :: Interface where
  "eth1 =
     \<lparr>name = ''eth1'', type = ''ethernet'',
      ipv4 = auto_config,
      ipv6 = \<lparr>ip_method = ''manual'',
              address = [\<lparr>ip = 0xfe800000000000000000000000000001, prefixlen = 64\<rparr>,
                         \<lparr>ip = 0x20010db8000000000000000000000001, prefixlen = 64\<rparr>],
              gateway = None,
              nameservers = []\<rparr>,
      vlan = None, wifi = None\<rparr>"

definition eth2 :: Interface where
  "eth2 =
     \<lparr>name = ''eth2'', type = ''ethernet'',
      ipv4 = auto_config,
      ipv6 = \<lparr>ip_method = ''manual'',
              address = [\<lparr>ip = 0xfebf0000000000000000000000000001, prefixlen = 64\<rparr>],
              gateway = None,
              nameservers = []\<rparr>,
      vlan = None, wifi = None\<rparr>"

definition wlan0 :: Interface where
  "wlan0 =
     \<lparr>name = ''wlan0'', type = ''wireless'',
      ipv4 = auto_config, ipv6 = auto_config,
      vlan = None,
      wifi = Some \<lparr>ssid = ''a'', auth = ''wpa-psk'', psk = Some ''secret''\<rparr>\<rparr>"

definition vlan10 :: Interface where
  "vlan10 =
     \<lparr>name = ''eth0'', type = ''vlan'',
      ipv4 = auto_config, ipv6 = auto_config,
      vlan = Some \<lparr>vlan_id = 10, vlan_interface = ''eth0''\<rparr>,
      wifi = None\<rparr>"

section \<open>Properties of the control object\<close>

lemma emit_simps [simp]:
  "events (emit e w) = events w @ [e]" "log (emit e w) = log w"
  "written (emit e w) = written w" "fs (emit e w) = fs w"
  by (simp_all add: emit_def)

lemma logger_simps [simp]:
  "events (logger l m w) = events w" "log (logger l m w) = log w @ [(l, m)]"
  "written (logger l m w) = written w" "fs (logger l m w) = fs w"
  by (simp_all add: logger_def)

subsection \<open>The hardware event handler\<close>

text \<open>
  Claim C9. When the device does not match the policy group, or the installed version is
  unknown, or the version is below \<^verbatim>\<open>2021.9.0\<close>, the handler returns with the world as
  it was: no \<^verbatim>\<open>get_config\<close> query and no \<^verbatim>\<open>usb/scan\<close> message. The handler
  appends the query followed by the rescan message exactly when the device matches, the
  version is known and not below the minimum, and the answer to the query is a
  configuration whose component list contains \<^verbatim>\<open>usb\<close>; in every other run it appends
  nothing or the query alone.
\<close>

theorem hardware_events_guards:
  fixes env :: "'dev env"
  shows "(\<not> is_match_cgroup_UART env device \<or> version env = None
            \<or> (\<exists>v. version env = Some v \<and> version_lt env v ''2021.9.0'' = Inr True)
          \<longrightarrow> hardware_events env device w = (Inr (), w))
       \<and> ((events (snd (hardware_events env device w))
              = events w @ [SendCommand (Type ''get_config''), SendMessage (Type ''usb/scan'')])
            = (is_match_cgroup_UART env device
               \<and> (\<exists>v. version env = Some v \<and> v \<noteq> [] \<and> version_lt env v ''2021.9.0'' = Inr False)
               \<and> (\<exists>d. async_send_command env (Type ''get_config'') = Inr (Some d)
                      \<and> ''usb'' \<in> set (dict_get_list d ''components''))))
       \<and> (events (snd (hardware_events env device w)) = events w
           \<or> events (snd (hardware_events env device w))
                = events w @ [SendCommand (Type ''get_config'')]
           \<or> events (snd (hardware_events env device w))
                = events w @ [SendCommand (Type ''get_config''), SendMessage (Type ''usb/scan'')])"
proof (intro conjI impI)
  assume "\<not> is_match_cgroup_UART env device \<or> version env = None
            \<or> (\<exists>v. version env = Some v \<and> version_lt env v ''2021.9.0'' = Inr True)"
  then have "guard_blocks env device = Inr True"
    by (auto simp: guard_blocks_def)
  then show "hardware_events env device w = (Inr (), w)"
    by (simp add: hardware_events_def)
next
  show "(events (snd (hardware_events env device w))
              = events w @ [SendCommand (Type ''get_config''), SendMessage (Type ''usb/scan'')])
            = (is_match_cgroup_UART env device
               \<and> (\<exists>v. version env = Some v \<and> v \<noteq> [] \<and> version_lt env v ''2021.9.0'' = Inr False)
               \<and> (\<exists>d. async_send_command env (Type ''get_config'') = Inr (Some d)
                      \<and> ''usb'' \<in> set (dict_get_list d ''components'')))"
    by (auto simp: hardware_events_def guard_blocks_def dict_get_list_def Let_def
             split: option.splits sum.splits bool.splits if_splits)
next
  show "events (snd (hardware_events env device w)) = events w
           \<or> events (snd (hardware_events env device w))
                = events w @ [SendCommand (Type ''get_config'')]
           \<or> events (snd (hardware_events env device w))
                = events w @ [SendCommand (Type ''get_config''), SendMessage (Type ''usb/scan'')]"
    by (auto simp: hardware_events_def Let_def split: option.splits sum.splits bool.splits)
qed

theorem hardware_events_guards_witness:
  "is_match_cgroup_UART channel_down ()
   \<and> version channel_down = Some ''2021.8.0''
   \<and> version_lt channel_down ''2021.8.0'' ''2021.9.0'' = Inr True
   \<and> hardware_events channel_down () world0 = (Inr (), world0)
   \<and> is_match_cgroup_UART usb_ready ()
   \<and> version usb_ready = Some ''2021.12.0''
   \<and> version_lt usb_ready ''2021.12.0'' ''2021.9.0'' = Inr False
   \<and> async_send_command usb_ready (Type ''get_config'')
        = Inr (Some [(''components'', [''zha'', ''usb''])])
   \<and> events (snd (hardware_events usb_ready () world0))
        = [SendCommand (Type ''get_config''), SendMessage (Type ''usb/scan'')]"
  using hardware_events_guards [of channel_down "()" world0]
        hardware_events_guards [of usb_ready "()" world0]
  by (simp add: channel_down_def usb_ready_def world0_def dict_get_list_def)

subsection \<open>Backup\<close>

lemma notify_start_cases:
  assumes "\<forall>e'. async_send_command env BACKUP_START = Inl e' \<longrightarrow> e' = HomeAssistantWSError"
  shows "\<exists>w1. notify_start env w = (Inr (), w1)
           \<and> events w1 = events w @ [SendCommand BACKUP_START]
           \<and> written w1 = written w \<and> fs w1 = fs w"
  using assms by (auto simp: notify_start_def Let_def split: sum.splits)

text \<open>
  Claim C3 as stated fails: the handler inside \<^verbatim>\<open>finally\<close> names
  \<^verbatim>\<open>HomeAssistantWSError\<close> only. When the population raises \<^verbatim>\<open>OSError\<close> and the
  \<^verbatim>\<open>BACKUP_END\<close> send then raises an exception of another class, that exception is
  what the caller gets, the population error is gone and no warning is logged.
\<close>

theorem backup_end_masks_counterexample:
  "async_send_command end_breaks BACKUP_START = Inr None
   \<and> atomic_contents_add end_breaks = Inl OSError
   \<and> async_send_command end_breaks BACKUP_END = Inl (OtherError ''RuntimeError'')
   \<and> fst (backup end_breaks world0) = Inl (OtherError ''RuntimeError'')
   \<and> fst (backup end_breaks world0) \<noteq> Inl OSError
   \<and> events (snd (backup end_breaks world0))
       = [SendCommand BACKUP_START, RunWriteTarfile, SendCommand BACKUP_END]
   \<and> log (snd (backup end_breaks world0))
       = [(INFO, ''Backing up Home Assistant Core config folder'')]"
  by (simp add: backup_def notify_start_def write_tarfile_def notify_end_def Let_def
        end_breaks_def failing_writer_def channel_down_def world0_def)

text \<open>
  Claim C3, amended. In a run that reaches the population of the archive (the
  \<^verbatim>\<open>BACKUP_START\<close> send answered, or failed with the channel's
  \<^verbatim>\<open>HomeAssistantWSError\<close>) and in which the population raises \<open>e\<close>, the
  \<^verbatim>\<open>BACKUP_END\<close> command is sent after the population and before the method ends,
  whatever that send does. When the send answers or fails with the channel's
  \<^verbatim>\<open>HomeAssistantWSError\<close>, the method raises \<open>e\<close>; and when it fails with
  \<^verbatim>\<open>HomeAssistantWSError\<close>, that failure is logged as a warning, the last record of
  the run, is not raised and does not replace \<open>e\<close>.
\<close>

theorem backup_end_after_failed_population:
  fixes env :: "'dev env"
  assumes start: "\<forall>e'. async_send_command env BACKUP_START = Inl e' \<longrightarrow> e' = HomeAssistantWSError"
    and pop: "atomic_contents_add env = Inl e"
  shows "events (snd (backup env w))
           = events w @ [SendCommand BACKUP_START, RunWriteTarfile, SendCommand BACKUP_END]
       \<and> written (snd (backup env w)) = written w
       \<and> ((\<forall>e'. async_send_command env BACKUP_END = Inl e' \<longrightarrow> e' = HomeAssistantWSError)
            \<longrightarrow> fst (backup env w) = Inl e)
       \<and> (async_send_command env BACKUP_END = Inl HomeAssistantWSError \<longrightarrow>
            fst (backup env w) = Inl e
            \<and> last (log (snd (backup env w)))
                = (WARNING, ''Error during Home Assistant Core backup. Check HA Core logs.''))"
proof -
  obtain w1 where w1: "notify_start env w = (Inr (), w1)"
      "events w1 = events w @ [SendCommand BACKUP_START]" "written w1 = written w"
    using notify_start_cases [OF start] by blast
  have wt: "write_tarfile env w1
      = (Inl e, emit RunWriteTarfile
                  (logger INFO ''Backing up Home Assistant Core config folder'' w1))"
    using pop by (simp add: write_tarfile_def)
  show ?thesis
    using w1 by (auto simp: backup_def wt notify_end_def Let_def split: sum.splits)
qed

theorem backup_end_after_failed_population_witness:
  "async_send_command failing_writer BACKUP_START = Inl HomeAssistantWSError
   \<and> atomic_contents_add failing_writer = Inl OSError
   \<and> async_send_command failing_writer BACKUP_END = Inl HomeAssistantWSError
   \<and> fst (backup failing_writer world0) = Inl OSError
   \<and> events (snd (backup failing_writer world0))
       = [SendCommand BACKUP_START, RunWriteTarfile, SendCommand BACKUP_END]
   \<and> last (log (snd (backup failing_writer world0)))
       = (WARNING, ''Error during Home Assistant Core backup. Check HA Core logs.'')"
  using backup_end_after_failed_population [of failing_writer OSError world0]
  by (simp add: failing_writer_def channel_down_def world0_def)

text \<open>
  Claim C4. When the \<^verbatim>\<open>BACKUP_START\<close> and the \<^verbatim>\<open>BACKUP_END\<close> send both fail with
  the channel's error and the population of the archive succeeds with content \<open>a\<close>,
  the method returns without an exception, the archive holds \<open>a\<close>, and the run made
  exactly three calls in this order: one \<^verbatim>\<open>BACKUP_START\<close> send, the population, one
  \<^verbatim>\<open>BACKUP_END\<close> send. Both failures are logged as warnings.
\<close>

theorem backup_survives_failing_channel:
  fixes env :: "'dev env"
  assumes start: "async_send_command env BACKUP_START = Inl HomeAssistantWSError"
    and pop: "atomic_contents_add env = Inr a"
    and fin: "async_send_command env BACKUP_END = Inl HomeAssistantWSError"
  shows "fst (backup env w) = Inr ()
       \<and> written (snd (backup env w)) = Some a
       \<and> events (snd (backup env w))
           = events w @ [SendCommand BACKUP_START, RunWriteTarfile, SendCommand BACKUP_END]
       \<and> log (snd (backup env w))
           = log w @
             [(WARNING, ''Preparing backup of Home Assistant Core failed. Check HA Core logs.''),
              (INFO, ''Backing up Home Assistant Core config folder''),
              (INFO, ''Backup Home Assistant Core config folder done''),
              (WARNING, ''Error during Home Assistant Core backup. Check HA Core logs.'')]"
  using assms
  by (simp add: backup_def notify_start_def write_tarfile_def notify_end_def Let_def)

theorem backup_survives_failing_channel_witness:
  "async_send_command channel_down BACKUP_START = Inl HomeAssistantWSError
   \<and> atomic_contents_add channel_down = Inr [''./configuration.yaml'']
   \<and> async_send_command channel_down BACKUP_END = Inl HomeAssistantWSError
   \<and> fst (backup channel_down world0) = Inr ()
   \<and> written (snd (backup channel_down world0)) = Some [''./configuration.yaml'']
   \<and> events (snd (backup channel_down world0))
       = [SendCommand BACKUP_START, RunWriteTarfile, SendCommand BACKUP_END]"
  using backup_survives_failing_channel [of channel_down "[''./configuration.yaml'']" world0]
  by (simp add: channel_down_def world0_def)

subsection \<open>Restore\<close>

text \<open>An unsafe member anywhere in the archive makes the staging fail.\<close>

lemma stage_members_unsafe:
  "Inr (Member p c) \<in> set ms \<Longrightarrow> \<not> secure_member p \<Longrightarrow> \<exists>e. stage_members env st ms = Inl e"
proof (induction ms arbitrary: st)
  case Nil
  then show ?case by simp
next
  case (Cons m ms)
  show ?case
  proof (cases m)
    case (Inl e)
    then show ?thesis by simp
  next
    case (Inr mem)
    obtain q d where mem: "mem = Member q d" by (cases mem)
    show ?thesis
    proof (cases "Inr (Member p c) = m")
      case True
      with Inr mem Cons.prems show ?thesis by simp
    next
      case False
      with Cons.prems have "Inr (Member p c) \<in> set ms" by simp
      from Cons.IH [OF this Cons.prems(2)] Inr mem show ?thesis by simp
    qed
  qed
qed

text \<open>
  When every member can be read and every write goes through, the failure is the one of
  the unsafe member.
\<close>

lemma stage_members_unsafe_readable:
  "Inr (Member p c) \<in> set ms \<Longrightarrow> \<not> secure_member p \<Longrightarrow> \<forall>m \<in> set ms. \<exists>x. m = Inr x
   \<Longrightarrow> \<forall>q. \<not> write_fails env q
   \<Longrightarrow> stage_members env st ms = Inl InvalidArchiveMember"
proof (induction ms arbitrary: st)
  case Nil
  then show ?case by simp
next
  case (Cons m ms)
  from Cons.prems(3) obtain mem where m: "m = Inr mem" by auto
  obtain q d where mem: "mem = Member q d" by (cases mem)
  show ?case
  proof (cases "secure_member q")
    case False
    with m mem show ?thesis by simp
  next
    case True
    with Cons.prems(1,2) m mem have "Inr (Member p c) \<in> set ms" by auto
    from Cons.IH [OF this Cons.prems(2)] Cons.prems(3,4) m mem True show ?thesis by simp
  qed
qed

text \<open>The method in one equation: what it returns and the world it leaves, by the outcome of the staging.\<close>

lemma restore_result:
  "restore env w =
     (case stage_members env (fs w) (tar_members env) of
        Inr files' \<Rightarrow>
          (Inr (), logger INFO ''Restore Home Assistant Core config folder done''
             ((emit RunRestoreTarfile
                (logger INFO ''Restore Home Assistant Core config folder'' w))\<lparr>fs := files'\<rparr>))
      | Inl e \<Rightarrow>
          (if e = TarError \<or> e = OSError
           then (Inr (), logger WARNING ''Can't restore Home Assistant Core config folder: %s''
                  ((emit RunRestoreTarfile
                     (logger INFO ''Restore Home Assistant Core config folder'' w))\<lparr>fs := fs w\<rparr>))
           else (Inl e, (emit RunRestoreTarfile
                     (logger INFO ''Restore Home Assistant Core config folder'' w))\<lparr>fs := fs w\<rparr>)))"
  by (simp add: restore_def restore_tarfile_def extractall_def Let_def split: sum.splits)

text \<open>
  Claim C2. When the archive holds a member whose path is absolute or climbs out of the
  destination directory, the extraction fails, the filesystem after \<^verbatim>\<open>restore\<close> is
  the filesystem before it, and the record that the restore is done is not logged. When
  moreover every member of the archive can be read and no write is refused, the method
  raises \<open>InvalidArchiveMember\<close>.
\<close>

theorem restore_rejects_unsafe_member:
  fixes env :: "'dev env"
  assumes mem: "Inr (Member p c) \<in> set (tar_members env)"
    and unsafe: "is_absolute p \<or> climbs_out 0 (split_on CHR ''/'' p)"
  shows "fs (snd (restore env w)) = fs w
       \<and> (\<exists>e. fst (extractall env (fs w)) = Inl e)
       \<and> (INFO, ''Restore Home Assistant Core config folder done'')
            \<notin> set (drop (length (log w)) (log (snd (restore env w))))
       \<and> ((\<forall>m \<in> set (tar_members env). \<exists>x. m = Inr x) \<and> (\<forall>q. \<not> write_fails env q)
            \<longrightarrow> fst (restore env w) = Inl InvalidArchiveMember)"
proof -
  from unsafe have ns: "\<not> secure_member p" by (auto simp: secure_member_def)
  from stage_members_unsafe [OF mem ns]
  obtain e where e: "stage_members env (fs w) (tar_members env) = Inl e" by blast
  have a: "fs (snd (restore env w)) = fs w"
    by (simp add: restore_result e)
  have b: "\<exists>e. fst (extractall env (fs w)) = Inl e"
    by (simp add: extractall_def e)
  have c: "(INFO, ''Restore Home Assistant Core config folder done'')
            \<notin> set (drop (length (log w)) (log (snd (restore env w))))"
    by (simp add: restore_result e)
  have d: "(\<forall>m \<in> set (tar_members env). \<exists>x. m = Inr x) \<and> (\<forall>q. \<not> write_fails env q)
            \<longrightarrow> fst (restore env w) = Inl InvalidArchiveMember"
  proof
    assume h: "(\<forall>m \<in> set (tar_members env). \<exists>x. m = Inr x) \<and> (\<forall>q. \<not> write_fails env q)"
    then have "stage_members env (fs w) (tar_members env) = Inl InvalidArchiveMember"
      using stage_members_unsafe_readable [OF mem ns] by blast
    then show "fst (restore env w) = Inl InvalidArchiveMember"
      by (simp add: restore_result)
  qed
  from a b c d show ?thesis by blast
qed

theorem restore_rejects_unsafe_member_witness:
  "tar_members channel_down
     = [Inr (Member ''configuration.yaml'' ''a''), Inr (Member ''../../etc/passwd'' ''x'')]
   \<and> climbs_out 0 (split_on CHR ''/'' ''../../etc/passwd'')
   \<and> (\<forall>q. \<not> write_fails channel_down q)
   \<and> fs (snd (restore channel_down world0)) = fs world0
   \<and> fst (restore channel_down world0) = Inl InvalidArchiveMember"
  using restore_rejects_unsafe_member [of "''../../etc/passwd''" "''x''" channel_down world0]
  by (simp add: channel_down_def)



section \<open>Properties of the payload generators\<close>

subsection \<open>Dictionaries and frames\<close>

lemma map_of_setitem: "map_of (setitem k v d) k' = (if k' = k then Some v else map_of d k')"
  by (induction d) auto

lemma conn_assign [simp]: "conn (assign r kvs fr) = conn fr"
  by (simp add: assign_def)

lemma heap_assign:
  "heap (assign r kvs fr) r' = (if r' = r then fold (\<lambda>(k, v). setitem k v) kvs (heap fr r) else heap fr r')"
  by (simp add: assign_def)

lemma conn_link [simp]: "conn (link k r fr) = setitem k r (conn fr)"
  by (simp add: link_def)

lemma heap_link [simp]: "heap (link k r fr) = heap fr"
  by (simp add: link_def)

lemma map_of_resolve: "map_of (resolve fr) k = map_option (heap fr) (map_of (conn fr) k)"
  by (simp add: resolve_def map_of_map comp_def)

lemma ipv4_block_conn:
  "ipv4_block env i fr = Inr fr' \<Longrightarrow> conn fr' = setitem ''ipv4'' R_ipv4 (conn fr)"
  by (auto simp: ipv4_block_def split: if_splits sum.splits)

lemma ipv4_block_heap:
  "ipv4_block env i fr = Inr fr' \<Longrightarrow> r \<noteq> R_ipv4 \<Longrightarrow> heap fr' r = heap fr r"
  by (auto simp: ipv4_block_def heap_assign split: if_splits sum.splits)

lemma ipv6_block_conn:
  "ipv6_block env i fr = Inr fr' \<Longrightarrow> conn fr' = setitem ''ipv6'' R_ipv6 (conn fr)"
  by (auto simp: ipv6_block_def split: if_splits sum.splits)

lemma ipv6_block_heap:
  "ipv6_block env i fr = Inr fr' \<Longrightarrow> r \<noteq> R_ipv4 \<Longrightarrow> r \<noteq> R_ipv6 \<Longrightarrow> heap fr' r = heap fr r"
  by (auto simp: ipv6_block_def heap_assign split: if_splits sum.splits)

lemma conn_wireless_security_block:
  "conn (wireless_security_block w fr) =
     (if auth w \<noteq> ''open'' then setitem ''802-11-wireless-security'' R_wireless_security (conn fr)
      else conn fr)"
  by (simp add: wireless_security_block_def Let_def split: option.splits)

lemma heap_wireless_security_block:
  "r \<noteq> R_wireless \<Longrightarrow> r \<noteq> R_wireless_security \<Longrightarrow> heap (wireless_security_block w fr) r = heap fr r"
  by (simp add: wireless_security_block_def Let_def heap_assign split: option.splits)

lemma medium_block_heap:
  "medium_block i fr = Inr fr' \<Longrightarrow> r = R_connection \<or> r = R_ipv4 \<or> r = R_ipv6 \<Longrightarrow> heap fr' r = heap fr r"
  by (auto simp: medium_block_def heap_assign heap_wireless_security_block split: if_splits option.splits)

lemma medium_block_conn:
  "medium_block i fr = Inr fr' \<Longrightarrow> k = ''connection'' \<or> k = ''ipv4'' \<or> k = ''ipv6''
   \<Longrightarrow> map_of (conn fr') k = map_of (conn fr) k"
  by (auto simp: medium_block_def conn_wireless_security_block map_of_setitem split: if_splits option.splits)

text \<open>The frames of a run that returns.\<close>

lemma get_connection_frames:
  assumes "get_connection_from_interface env i name_arg uuid_arg = Inr profile"
  obtains name' fr2 fr3 fr4 where
    "generate_name i name_arg = Inr name'"
    "ipv4_block env i (connection_block i name' (generate_uuid env uuid_arg) \<lparr>conn = [], heap = (\<lambda>_. [])\<rparr>) = Inr fr2"
    "ipv6_block env i fr2 = Inr fr3"
    "medium_block i fr3 = Inr fr4"
    "profile = resolve fr4"
  using assms
  by (auto simp: get_connection_from_interface_def Let_def split: sum.splits)

subsection \<open>The text of a prefix length is read back\<close>

lemma split_on_single: "sep \<notin> set d \<Longrightarrow> split_on sep d = [d]"
  by (induction d) auto

lemma split_on_snoc:
  "sep \<notin> set d \<Longrightarrow> \<exists>ys. ys \<noteq> [] \<and> split_on sep (s @ sep # d) = ys @ [d]"
proof (induction s)
  case Nil
  then show ?case by (simp add: split_on_single)
next
  case (Cons c s)
  then obtain ys where ys: "ys \<noteq> []" "split_on sep (s @ sep # d) = ys @ [d]" by blast
  then obtain y ys' where y: "ys = y # ys'" by (cases ys) auto
  show ?case
  proof (cases "c = sep")
    case True
    with ys have "split_on sep ((c # s) @ sep # d) = ([] # ys) @ [d]" by simp
    then show ?thesis by blast
  next
    case False
    with ys y have "split_on sep ((c # s) @ sep # d) = ((c # y) # ys') @ [d]" by simp
    then show ?thesis by blast
  qed
qed

lemma last_split_on: "sep \<notin> set d \<Longrightarrow> last (split_on sep (s @ sep # d)) = d"
  using split_on_snoc [of sep d s] by auto

lemma digit_val_digit_char: "d < 10 \<Longrightarrow> digit_val (digit_char d) = Some d"
proof -
  assume "d < 10"
  then have "d \<in> {0,1,2,3,4,5,6,7,8,9}" by auto
  then show ?thesis
    by (auto simp: digit_val_def digit_char_def)
qed

lemma digit_char_not_slash: "d < 10 \<Longrightarrow> CHR ''/'' \<noteq> digit_char d"
proof -
  assume "d < 10"
  then have "d \<in> {0,1,2,3,4,5,6,7,8,9}" by auto
  then show ?thesis
    by (auto simp: digit_char_def)
qed

lemma str_nat_no_slash: "CHR ''/'' \<notin> set (str_nat n)"
proof (induction n rule: str_nat.induct)
  case (1 n)
  show ?case
  proof (cases "n < 10")
    case True
    then show ?thesis by (simp add: str_nat.simps [of n] digit_char_not_slash)
  next
    case False
    with 1 show ?thesis
      by (simp add: str_nat.simps [of n] digit_char_not_slash)
  qed
qed

lemma str_nat_not_empty: "str_nat n \<noteq> []"
  by (simp add: str_nat.simps [of n])

lemma int_digits_snoc:
  "int_digits acc (s @ [c]) =
     (case int_digits acc s of
        Inl e \<Rightarrow> Inl e
      | Inr m \<Rightarrow> (case digit_val c of None \<Rightarrow> Inl ValueError | Some d \<Rightarrow> Inr (10 * m + d)))"
  by (induction s arbitrary: acc) (auto split: option.splits)

lemma int_digits_str_nat: "int_digits 0 (str_nat n) = Inr n"
proof (induction n rule: str_nat.induct)
  case (1 n)
  show ?case
  proof (cases "n < 10")
    case True
    then show ?thesis by (simp add: str_nat.simps [of n] digit_val_digit_char)
  next
    case False
    with 1 have "int_digits 0 (str_nat (n div 10)) = Inr (n div 10)" by simp
    with False show ?thesis
      by (simp add: str_nat.simps [of n] int_digits_snoc digit_val_digit_char)
  qed
qed

lemma py_int_str_nat: "py_int (str_nat n) = Inr n"
  by (simp add: py_int_def str_nat_not_empty int_digits_str_nat)

lemma prefix_of_with_prefixlen6:
  "py_int (last (split_on CHR ''/'' (with_prefixlen6 a))) = Inr (prefixlen a)"
  by (simp add: with_prefixlen6_def last_split_on str_nat_no_slash py_int_str_nat)

lemma prefix_of_with_prefixlen4:
  "py_int (last (split_on CHR ''/'' (with_prefixlen4 a))) = Inr (prefixlen a)"
  by (simp add: with_prefixlen4_def last_split_on str_nat_no_slash py_int_str_nat)

lemma adressdata4_eq:
  "adressdata4 as = Inr (map (\<lambda>a. address_entry (str_ipv4 (ip a)) (prefixlen a)) as)"
  by (induction as) (simp_all add: prefix_of_with_prefixlen4)

lemma adressdata6_eq:
  "adressdata6 as
     = Inr (map (\<lambda>a. address_entry (str_ipv6 (ip a)) (prefixlen a))
              (filter (\<lambda>a. \<not> prefix ''fe80::'' (with_prefixlen6 a)) as))"
  by (induction as) (simp_all add: prefix_of_with_prefixlen6)

subsection \<open>The function returns\<close>

text \<open>
  The two loops never raise, so in the model the function returns a document for every
  interface that has the block its type asks for. (\<^verbatim>\<open>Variant\<close> is a constructor in
  the model; see there.)
\<close>

lemma ipv4_block_returns: "\<exists>fr'. ipv4_block env i fr = Inr fr'"
  by (simp add: ipv4_block_def adressdata4_eq)

lemma ipv6_block_returns: "\<exists>fr'. ipv6_block env i fr = Inr fr'"
  by (simp add: ipv6_block_def adressdata6_eq)

lemma medium_block_returns: "valid_interface i \<Longrightarrow> \<exists>fr'. medium_block i fr = Inr fr'"
  by (auto simp: medium_block_def valid_interface_def)

lemma generate_name_returns: "valid_interface i \<Longrightarrow> \<exists>n. generate_name i name_arg = Inr n"
  by (auto simp: generate_name_def valid_interface_def Let_def)

lemma get_connection_returns:
  assumes "valid_interface i"
  shows "\<exists>profile. get_connection_from_interface env i name_arg uuid_arg = Inr profile"
proof -
  from generate_name_returns [OF assms] obtain n where n: "generate_name i name_arg = Inr n" by blast
  let ?fr1 = "connection_block i n (generate_uuid env uuid_arg) \<lparr>conn = [], heap = (\<lambda>_. [])\<rparr>"
  from ipv4_block_returns obtain fr2 where f2: "ipv4_block env i ?fr1 = Inr fr2" by blast
  from ipv6_block_returns obtain fr3 where f3: "ipv6_block env i fr2 = Inr fr3" by blast
  from medium_block_returns [OF assms] obtain fr4 where f4: "medium_block i fr3 = Inr fr4" by blast
  show ?thesis
    by (simp add: get_connection_from_interface_def n f2 f3 f4)
qed

subsection \<open>The text form of link-local addresses\<close>

lemma join_cons2: "xs \<noteq> [] \<Longrightarrow> join sep (x # xs) = x @ sep @ join sep xs"
  by (cases xs) auto

lemma compress_fe80_64:
  "prefix ''fe80::'' (join '':'' (compress_hextets [''fe80'', ''0'', ''0'', ''0'', A, B, C, D]))"
  by (cases "A = ''0''"; cases "B = ''0''"; cases "C = ''0''"; cases "D = ''0''")
     (simp_all add: compress_hextets_def Let_def)

lemma hextets_eq:
  "hextets a = [hex_nat (a div 65536 ^ 7 mod 65536), hex_nat (a div 65536 ^ 6 mod 65536),
     hex_nat (a div 65536 ^ 5 mod 65536), hex_nat (a div 65536 ^ 4 mod 65536),
     hex_nat (a div 65536 ^ 3 mod 65536), hex_nat (a div 65536 ^ 2 mod 65536),
     hex_nat (a div 65536 mod 65536), hex_nat (a mod 65536)]"
  by (simp add: hextets_def upt_rec)

lemma fe80_64_hextets:
  fixes a :: nat
  assumes "a div 2 ^ 64 = 0xfe80000000000000"
  shows "a div 65536 ^ 7 mod 65536 = 0xfe80" "a div 65536 ^ 6 mod 65536 = 0"
    "a div 65536 ^ 5 mod 65536 = 0" "a div 65536 ^ 4 mod 65536 = 0"
proof -
  have d: "\<And>k. a div (2 ^ 64 * k) = 0xfe80000000000000 div k"
    using assms by (simp add: div_mult2_eq)
  have "a div 65536 ^ 7 = a div (2 ^ 64 * 2 ^ 48)" by simp
  then show "a div 65536 ^ 7 mod 65536 = 0xfe80" by (simp only: d) simp
  have "a div 65536 ^ 6 = a div (2 ^ 64 * 2 ^ 32)" by simp
  then show "a div 65536 ^ 6 mod 65536 = 0" by (simp only: d) simp
  have "a div 65536 ^ 5 = a div (2 ^ 64 * 2 ^ 16)" by simp
  then show "a div 65536 ^ 5 mod 65536 = 0" by (simp only: d) simp
  have "a div 65536 ^ 4 = a div (2 ^ 64 * 1)" by simp
  then show "a div 65536 ^ 4 mod 65536 = 0" by (simp only: d) simp
qed

lemma fe80_64_excluded:
  assumes "ip a div 2 ^ 64 = 0xfe80000000000000"
  shows "prefix ''fe80::'' (with_prefixlen6 a)"
proof -
  have h: "hex_nat 0xfe80 = ''fe80''" "hex_nat 0 = ''0''"
    by (simp_all add: hex_nat.simps digit_char_def)
  have "prefix ''fe80::'' (str_ipv6 (ip a))"
    unfolding str_ipv6_def hextets_eq fe80_64_hextets [OF assms] h
    by (rule compress_fe80_64)
  then show ?thesis
    by (simp add: with_prefixlen6_def)
qed

lemma scan_hextets_start:
  "scan_hextets (bs, bl, s, l) index hs = (bs', bl', s', l')
   \<Longrightarrow> - 1 \<le> s \<Longrightarrow> (0 < bl \<longrightarrow> 0 \<le> bs) \<Longrightarrow> (0 < bl' \<longrightarrow> 0 \<le> bs')"
proof (induction hs arbitrary: bs bl s l index)
  case Nil
  then show ?case by simp
next
  case (Cons h hs)
  show ?case
  proof (cases "h = ''0''")
    case False
    with Cons.prems have "scan_hextets (bs, bl, - 1, 0) (index + 1) hs = (bs', bl', s', l')"
      by simp
    from Cons.IH [OF this] Cons.prems show ?thesis by simp
  next
    case True
    let ?s = "if s = - 1 then int index else s"
    have s0: "0 \<le> ?s" using Cons.prems(2) by auto
    show ?thesis
    proof (cases "l + 1 > bl")
      case True
      with \<open>h = ''0''\<close> Cons.prems
      have "scan_hextets (?s, l + 1, ?s, l + 1) (index + 1) hs = (bs', bl', s', l')"
        by (simp add: Let_def)
      from Cons.IH [OF this] s0 show ?thesis by simp
    next
      case False
      with \<open>h = ''0''\<close> Cons.prems
      have "scan_hextets (bs, bl, ?s, l + 1) (index + 1) hs = (bs', bl', s', l')"
        by (simp add: Let_def)
      from Cons.IH [OF this] s0 Cons.prems(3) show ?thesis by simp
    qed
  qed
qed

lemma compress_hextets_shape:
  assumes "rest \<noteq> []"
  shows "\<exists>xs. xs \<noteq> [] \<and> (compress_hextets (h0 # rest) = [] # xs \<or> compress_hextets (h0 # rest) = h0 # xs)"
proof -
  obtain bs bl s l where sc: "scan_hextets (- 1, 0, - 1, 0) 0 (h0 # rest) = (bs, bl, s, l)"
    by (cases "scan_hextets (- 1, 0, - 1, 0) 0 (h0 # rest)") auto
  from scan_hextets_start [OF sc] have bs0: "0 < bl \<longrightarrow> 0 \<le> bs" by simp
  show ?thesis
  proof (cases "1 < bl")
    case False
    with assms show ?thesis unfolding compress_hextets_def sc by auto
  next
    case True
    with bs0 have nn: "0 \<le> bs" by simp
    show ?thesis
    proof (cases "bs = 0")
      case True
      with \<open>1 < bl\<close> show ?thesis unfolding compress_hextets_def sc by (auto simp: Let_def)
    next
      case False
      with nn obtain k where k: "nat bs = Suc k" by (cases "nat bs") auto
      with \<open>1 < bl\<close> False show ?thesis unfolding compress_hextets_def sc by (auto simp: Let_def)
    qed
  qed
qed

lemma prefix_up_to_separator:
  "c \<notin> set h \<Longrightarrow> c \<notin> set p \<Longrightarrow> prefix (p @ c # q) (h @ c # r) \<Longrightarrow> h = p"
proof (induction p arbitrary: h)
  case Nil
  then show ?case by (cases h) auto
next
  case (Cons y p)
  then show ?case by (cases h) auto
qed

lemma digit_char_not_colon: "d < 16 \<Longrightarrow> CHR '':'' \<noteq> digit_char d"
proof -
  assume "d < 16"
  then have "d = 0 \<or> d = 1 \<or> d = 2 \<or> d = 3 \<or> d = 4 \<or> d = 5 \<or> d = 6 \<or> d = 7 \<or> d = 8
      \<or> d = 9 \<or> d = 10 \<or> d = 11 \<or> d = 12 \<or> d = 13 \<or> d = 14 \<or> d = 15" by arith
  then show ?thesis
    by (auto simp: digit_char_def)
qed

lemma hex_nat_no_colon: "CHR '':'' \<notin> set (hex_nat n)"
proof (induction n rule: hex_nat.induct)
  case (1 n)
  show ?case
  proof (cases "n < 16")
    case True
    then show ?thesis by (simp add: hex_nat.simps [of n] digit_char_not_colon)
  next
    case False
    with 1 show ?thesis
      by (simp add: hex_nat.simps [of n] digit_char_not_colon)
  qed
qed

lemma digit_char_code: "d < 16 \<Longrightarrow>
  (let n = (of_char (digit_char d) :: nat) in if n < 58 then n - 48 else n - 87) = d"
proof -
  assume "d < 16"
  then have "d = 0 \<or> d = 1 \<or> d = 2 \<or> d = 3 \<or> d = 4 \<or> d = 5 \<or> d = 6 \<or> d = 7 \<or> d = 8
      \<or> d = 9 \<or> d = 10 \<or> d = 11 \<or> d = 12 \<or> d = 13 \<or> d = 14 \<or> d = 15" by arith
  then show ?thesis
    by (auto simp: digit_char_def)
qed

lemma digit_char_inj: "d < 16 \<Longrightarrow> e < 16 \<Longrightarrow> digit_char d = digit_char e \<Longrightarrow> d = e"
  using digit_char_code [of d] digit_char_code [of e] by (simp add: Let_def)

lemma hex_nat_length: "16 \<le> n \<Longrightarrow> 2 \<le> length (hex_nat n)"
  by (subst hex_nat.simps) (simp add: hex_nat.simps [of "n div 16"])

lemma hex_nat_inj: "hex_nat x = hex_nat y \<Longrightarrow> x = y"
proof (induction x arbitrary: y rule: hex_nat.induct)
  case (1 x)
  show ?case
  proof (cases "x < 16")
    case True
    show ?thesis
    proof (cases "y < 16")
      case True
      with \<open>x < 16\<close> "1.prems" show ?thesis
        by (simp add: hex_nat.simps [of x] hex_nat.simps [of y] digit_char_inj)
    next
      case False
      then have "2 \<le> length (hex_nat y)" by (simp add: hex_nat_length)
      moreover from \<open>x < 16\<close> have "length (hex_nat x) = 1" by (simp add: hex_nat.simps [of x])
      ultimately show ?thesis using "1.prems" by simp
    qed
  next
    case False
    show ?thesis
    proof (cases "y < 16")
      case True
      from False have "2 \<le> length (hex_nat x)" by (simp add: hex_nat_length)
      moreover from True have "length (hex_nat y) = 1" by (simp add: hex_nat.simps [of y])
      ultimately show ?thesis using "1.prems" by simp
    next
      case yf: False
      from False yf "1.prems"
      have "hex_nat (x div 16) @ [digit_char (x mod 16)] = hex_nat (y div 16) @ [digit_char (y mod 16)]"
        by (simp add: hex_nat.simps [of x] hex_nat.simps [of y])
      then have a: "hex_nat (x div 16) = hex_nat (y div 16)" and b: "digit_char (x mod 16) = digit_char (y mod 16)"
        by simp_all
      from "1.IH" [OF False a] have "x div 16 = y div 16" .
      moreover from b have "x mod 16 = y mod 16" by (simp add: digit_char_inj)
      ultimately show ?thesis by (metis div_mult_mod_eq)
    qed
  qed
qed

lemma excluded_is_fe80:
  assumes pre: "prefix ''fe80::'' (with_prefixlen6 a)"
  shows "ip a div 65536 ^ 7 mod 65536 = 0xfe80"
proof -
  let ?h0 = "hex_nat (ip a div 65536 ^ 7 mod 65536)"
  obtain rest where hs: "hextets (ip a) = ?h0 # rest" "rest \<noteq> []"
    by (simp add: hextets_eq)
  from compress_hextets_shape [OF hs(2), of ?h0] obtain xs where xs: "xs \<noteq> []"
    "compress_hextets (?h0 # rest) = [] # xs \<or> compress_hextets (?h0 # rest) = ?h0 # xs"
    by blast
  from xs(2) show ?thesis
  proof
    assume "compress_hextets (?h0 # rest) = [] # xs"
    with xs(1) hs have "with_prefixlen6 a = CHR '':'' # (join '':'' xs @ ''/'' @ str_nat (prefixlen a))"
      by (simp add: with_prefixlen6_def str_ipv6_def join_cons2)
    with pre show ?thesis by simp
  next
    assume "compress_hextets (?h0 # rest) = ?h0 # xs"
    with xs(1) hs have w: "with_prefixlen6 a = ?h0 @ CHR '':'' # (join '':'' xs @ ''/'' @ str_nat (prefixlen a))"
      by (simp add: with_prefixlen6_def str_ipv6_def join_cons2)
    have "prefix (''fe80'' @ CHR '':'' # '':'') (with_prefixlen6 a)" using pre by simp
    then have "?h0 = ''fe80''"
      unfolding w by (rule prefix_up_to_separator [rotated 2]) (simp_all add: hex_nat_no_colon)
    moreover have "hex_nat 0xfe80 = ''fe80''" by (simp add: hex_nat.simps digit_char_def)
    ultimately have "?h0 = hex_nat 0xfe80" by simp
    then show ?thesis by (rule hex_nat_inj)
  qed
qed

lemma excluded_is_link_local:
  assumes pre: "prefix ''fe80::'' (with_prefixlen6 a)" and bound: "ip a < 2 ^ 128"
  shows "is_link_local (ip a)"
proof -
  from bound have "ip a div 65536 ^ 7 < 65536"
    by (simp add: less_mult_imp_div_less)
  with excluded_is_fe80 [OF pre] have e: "ip a div 2 ^ 112 = 0xfe80" by simp
  have "ip a div 2 ^ 118 = ip a div (2 ^ 112 * 2 ^ 6)" by simp
  also have "\<dots> = ip a div 2 ^ 112 div 2 ^ 6" by (simp only: div_mult2_eq)
  finally show ?thesis using e by (simp add: is_link_local_def)
qed

subsection \<open>Evaluation\<close>

lemmas run_simps =
  get_connection_from_interface_def generate_name_def generate_uuid_def connection_block_def
  connection_type_def ipv4_block_def ipv6_block_def medium_block_def wireless_security_block_def
  assign_def link_def resolve_def address_entry_def str_opt_def utf8_encode_def
  str_ipv6_def hextets_def compress_hextets_def hex_nat.simps digit_char_def str_nat.simps
  with_prefixlen6_def with_prefixlen4_def str_ipv4_def packed_def upt_rec Let_def
  py_int_def digit_val_def

subsection \<open>The connection section\<close>

text \<open>
  Claim C10. For every interface and every choice of the arguments \<^verbatim>\<open>name\<close> and
  \<^verbatim>\<open>uuid\<close>, the section \<^verbatim>\<open>connection\<close> of the document the function returns is the
  six fields \<^verbatim>\<open>id\<close>, \<^verbatim>\<open>interface-name\<close>, \<^verbatim>\<open>type\<close>, \<^verbatim>\<open>uuid\<close>, \<^verbatim>\<open>llmnr\<close>
  and \<^verbatim>\<open>mdns\<close>, the last two the number 2 under the signature \<^verbatim>\<open>i\<close> (a signed
  32-bit integer), whatever the type of the interface.
\<close>

theorem connection_section_llmnr_mdns:
  assumes "get_connection_from_interface env i name_arg uuid_arg = Inr profile"
  shows "\<exists>name'. generate_name i name_arg = Inr name'
           \<and> map_of profile ''connection''
               = Some [(''id'', Variant ''s'' (PStr name')),
                       (''interface-name'', Variant ''s'' (PStr (name i))),
                       (''type'', Variant ''s'' (PStr (connection_type i))),
                       (''uuid'', Variant ''s'' (PStr (generate_uuid env uuid_arg))),
                       (''llmnr'', Variant ''i'' (PInt 2)),
                       (''mdns'', Variant ''i'' (PInt 2))]"
proof -
  from assms obtain name' fr2 fr3 fr4 where
    n: "generate_name i name_arg = Inr name'"
    and b4: "ipv4_block env i (connection_block i name' (generate_uuid env uuid_arg) \<lparr>conn = [], heap = (\<lambda>_. [])\<rparr>) = Inr fr2"
    and b6: "ipv6_block env i fr2 = Inr fr3"
    and bm: "medium_block i fr3 = Inr fr4"
    and p: "profile = resolve fr4"
    by (rule get_connection_frames)
  let ?fr1 = "connection_block i name' (generate_uuid env uuid_arg) \<lparr>conn = [], heap = (\<lambda>_. [])\<rparr>"
  have c1: "conn ?fr1 = [(''connection'', R_connection)]"
    by (simp add: connection_block_def)
  have h1: "heap ?fr1 R_connection
      = [(''id'', Variant ''s'' (PStr name')),
         (''interface-name'', Variant ''s'' (PStr (name i))),
         (''type'', Variant ''s'' (PStr (connection_type i))),
         (''uuid'', Variant ''s'' (PStr (generate_uuid env uuid_arg))),
         (''llmnr'', Variant ''i'' (PInt 2)),
         (''mdns'', Variant ''i'' (PInt 2))]"
    by (simp add: connection_block_def heap_assign)
  have c4: "map_of (conn fr4) ''connection'' = Some R_connection"
    using medium_block_conn [OF bm, of "''connection''"] ipv6_block_conn [OF b6] ipv4_block_conn [OF b4] c1
    by (simp add: map_of_setitem)
  have h4: "heap fr4 R_connection = heap ?fr1 R_connection"
    using medium_block_heap [OF bm, of R_connection] ipv6_block_heap [OF b6, of R_connection]
      ipv4_block_heap [OF b4, of R_connection]
    by simp
  show ?thesis
    using n c4 h4 h1 by (simp add: p map_of_resolve)
qed

theorem connection_section_llmnr_mdns_witness:
  "get_connection_from_interface payload0 vlan10 (Some ''Supervisor lan'') (Some ''abc'')
     = Inr [(''connection'',
             [(''id'', Variant ''s'' (PStr ''Supervisor lan.10'')),
              (''interface-name'', Variant ''s'' (PStr ''eth0'')),
              (''type'', Variant ''s'' (PStr ''vlan'')),
              (''uuid'', Variant ''s'' (PStr ''abc'')),
              (''llmnr'', Variant ''i'' (PInt 2)),
              (''mdns'', Variant ''i'' (PInt 2))]),
            (''ipv4'', [(''method'', Variant ''s'' (PStr ''auto''))]),
            (''ipv6'', [(''method'', Variant ''s'' (PStr ''auto''))]),
            (''vlan'',
             [(''id'', Variant ''u'' (PInt 10)),
              (''parent'', Variant ''s'' (PStr ''eth0''))])]
   \<and> generate_name vlan10 (Some ''Supervisor lan'') = Inr ''Supervisor lan.10''
   \<and> map_of [(''connection'',
             [(''id'', Variant ''s'' (PStr ''Supervisor lan.10'')),
              (''interface-name'', Variant ''s'' (PStr ''eth0'')),
              (''type'', Variant ''s'' (PStr ''vlan'')),
              (''uuid'', Variant ''s'' (PStr ''abc'')),
              (''llmnr'', Variant ''i'' (PInt 2)),
              (''mdns'', Variant ''i'' (PInt 2))]),
            (''ipv4'', [(''method'', Variant ''s'' (PStr ''auto''))]),
            (''ipv6'', [(''method'', Variant ''s'' (PStr ''auto''))]),
            (''vlan'',
             [(''id'', Variant ''u'' (PInt 10)),
              (''parent'', Variant ''s'' (PStr ''eth0''))])] ''connection''
       = Some [(''id'', Variant ''s'' (PStr ''Supervisor lan.10'')),
               (''interface-name'', Variant ''s'' (PStr (name vlan10))),
               (''type'', Variant ''s'' (PStr (connection_type vlan10))),
               (''uuid'', Variant ''s'' (PStr (generate_uuid payload0 (Some ''abc'')))),
               (''llmnr'', Variant ''i'' (PInt 2)),
               (''mdns'', Variant ''i'' (PInt 2))]"
proof -
  have run: "get_connection_from_interface payload0 vlan10 (Some ''Supervisor lan'') (Some ''abc'')
     = Inr [(''connection'',
             [(''id'', Variant ''s'' (PStr ''Supervisor lan.10'')),
              (''interface-name'', Variant ''s'' (PStr ''eth0'')),
              (''type'', Variant ''s'' (PStr ''vlan'')),
              (''uuid'', Variant ''s'' (PStr ''abc'')),
              (''llmnr'', Variant ''i'' (PInt 2)),
              (''mdns'', Variant ''i'' (PInt 2))]),
            (''ipv4'', [(''method'', Variant ''s'' (PStr ''auto''))]),
            (''ipv6'', [(''method'', Variant ''s'' (PStr ''auto''))]),
            (''vlan'',
             [(''id'', Variant ''u'' (PInt 10)),
              (''parent'', Variant ''s'' (PStr ''eth0''))])]"
    by (simp add: run_simps payload0_def vlan10_def auto_config_def)
  have n: "generate_name vlan10 (Some ''Supervisor lan'') = Inr ''Supervisor lan.10''"
    by (simp add: generate_name_def vlan10_def str_nat.simps digit_char_def)
  from connection_section_llmnr_mdns [OF run] run n show ?thesis by simp
qed

subsection \<open>The IPv6 block\<close>

text \<open>The IPv6 block of a manual method, as a change of the frame.\<close>

lemma ipv6_block_manual:
  assumes m: "ip_method (ipv6 i) \<noteq> ''auto''" "ip_method (ipv6 i) \<noteq> ''disabled''"
    and b: "ipv6_block env i fr = Inr fr'"
  shows "heap fr' R_ipv6
           = fold (\<lambda>(k, v). setitem k v)
               [(''method'', Variant ''s'' (PStr ''manual'')),
                (''dns'', Variant ''aay''
                   (PList (map (\<lambda>a. PBytes (packed 16 a)) (nameservers (ipv6 i)))))]
               (heap fr R_ipv6)"
    and "heap fr' R_ipv4
           = fold (\<lambda>(k, v). setitem k v)
               [(''address-data'', Variant ''(a{sv})''
                   (PList (map (\<lambda>a. address_entry (str_ipv6 (ip a)) (prefixlen a))
                             (filter (\<lambda>a. \<not> prefix ''fe80::'' (with_prefixlen6 a))
                                (address (ipv6 i)))))),
                (''gateway'', Variant ''s'' (PStr (str_opt str_ipv6 (gateway (ipv6 i)))))]
               (heap fr R_ipv4)"
  using m b by (auto simp: ipv6_block_def adressdata6_eq heap_assign)

lemma ipv6_section_manual:
  assumes run: "get_connection_from_interface env i name_arg uuid_arg = Inr profile"
    and m: "ip_method (ipv6 i) \<noteq> ''auto''" "ip_method (ipv6 i) \<noteq> ''disabled''"
  shows "map_of profile ''ipv6''
           = Some [(''method'', Variant ''s'' (PStr ''manual'')),
                   (''dns'', Variant ''aay''
                      (PList (map (\<lambda>a. PBytes (packed 16 a)) (nameservers (ipv6 i)))))]"
    and "\<exists>sec. map_of profile ''ipv4'' = Some sec
           \<and> map_of sec ''address-data''
               = Some (Variant ''(a{sv})''
                   (PList (map (\<lambda>a. address_entry (str_ipv6 (ip a)) (prefixlen a))
                             (filter (\<lambda>a. \<not> prefix ''fe80::'' (with_prefixlen6 a))
                                (address (ipv6 i))))))
           \<and> map_of sec ''gateway''
               = Some (Variant ''s'' (PStr (str_opt str_ipv6 (gateway (ipv6 i)))))"
proof -
  from run obtain name' fr2 fr3 fr4 where
    n: "generate_name i name_arg = Inr name'"
    and b4: "ipv4_block env i (connection_block i name' (generate_uuid env uuid_arg) \<lparr>conn = [], heap = (\<lambda>_. [])\<rparr>) = Inr fr2"
    and b6: "ipv6_block env i fr2 = Inr fr3"
    and bm: "medium_block i fr3 = Inr fr4"
    and p: "profile = resolve fr4"
    by (rule get_connection_frames)
  have c3: "conn fr3 = [(''connection'', R_connection), (''ipv4'', R_ipv4), (''ipv6'', R_ipv6)]"
    using ipv6_block_conn [OF b6] ipv4_block_conn [OF b4] by (simp add: connection_block_def)
  have h2: "heap fr2 R_ipv6 = []"
    using ipv4_block_heap [OF b4, of R_ipv6] by (simp add: connection_block_def heap_assign)
  have s6: "map_of profile ''ipv6'' = Some (heap fr3 R_ipv6)"
    using medium_block_conn [OF bm, of "''ipv6''"] medium_block_heap [OF bm, of R_ipv6] c3
    by (simp add: p map_of_resolve)
  have s4: "map_of profile ''ipv4'' = Some (heap fr3 R_ipv4)"
    using medium_block_conn [OF bm, of "''ipv4''"] medium_block_heap [OF bm, of R_ipv4] c3
    by (simp add: p map_of_resolve)
  show "map_of profile ''ipv6''
           = Some [(''method'', Variant ''s'' (PStr ''manual'')),
                   (''dns'', Variant ''aay''
                      (PList (map (\<lambda>a. PBytes (packed 16 a)) (nameservers (ipv6 i)))))]"
    by (simp add: s6 ipv6_block_manual(1) [OF m b6] h2)
  show "\<exists>sec. map_of profile ''ipv4'' = Some sec
           \<and> map_of sec ''address-data''
               = Some (Variant ''(a{sv})''
                   (PList (map (\<lambda>a. address_entry (str_ipv6 (ip a)) (prefixlen a))
                             (filter (\<lambda>a. \<not> prefix ''fe80::'' (with_prefixlen6 a))
                                (address (ipv6 i))))))
           \<and> map_of sec ''gateway''
               = Some (Variant ''s'' (PStr (str_opt str_ipv6 (gateway (ipv6 i)))))"
    by (simp add: s4 ipv6_block_manual(2) [OF m b6] map_of_setitem)
qed

text \<open>
  Claim C1, at an Ethernet interface whose IPv6 block has the method \<^verbatim>\<open>manual\<close>, one
  address \<^verbatim>\<open>2001:db8::1/64\<close>, the gateway \<^verbatim>\<open>2001:db8::fff\<close> and one nameserver:
  the section \<^verbatim>\<open>ipv6\<close> of the returned document has the fields \<^verbatim>\<open>method\<close> and
  \<^verbatim>\<open>dns\<close> only; the address-data array and the gateway of the IPv6 block are fields
  of the section \<^verbatim>\<open>ipv4\<close>. (The lemma \<open>ipv6_section_manual\<close> above says the same
  of every interface with a manual IPv6 block.)
\<close>

theorem ipv6_manual_fields_land_in_ipv4:
  "get_connection_from_interface payload0 eth0 None None =
     Inr [(''connection'',
            [(''id'', Variant ''s'' (PStr ''Supervisor eth0'')),
             (''interface-name'', Variant ''s'' (PStr ''eth0'')),
             (''type'', Variant ''s'' (PStr ''802-3-ethernet'')),
             (''uuid'', Variant ''s'' (PStr ''00000000-0000-4000-8000-000000000000'')),
             (''llmnr'', Variant ''i'' (PInt 2)),
             (''mdns'', Variant ''i'' (PInt 2))]),
           (''ipv4'',
            [(''method'', Variant ''s'' (PStr ''auto'')),
             (''address-data'',
              Variant ''(a{sv})''
               (PList [PDict [(''address'', Variant ''s'' (PStr ''2001:db8::1'')),
                              (''prefix'', Variant ''u'' (PInt 64))]])),
             (''gateway'', Variant ''s'' (PStr ''2001:db8::fff''))]),
           (''ipv6'',
            [(''method'', Variant ''s'' (PStr ''manual'')),
             (''dns'',
              Variant ''aay''
               (PList [PBytes [32, 1, 13, 184, 0, 0, 0, 0, 0, 0, 0, 0, 0, 0, 0, 83]]))]),
           (''802-3-ethernet'',
            [(''assigned-mac-address'', Variant ''s'' (PStr ''preserve''))])]"
  by (simp add: run_simps payload0_def eth0_def auto_config_def)

text \<open>
  Claim C5 as stated fails: \<^verbatim>\<open>febf::1\<close> lies in \<^verbatim>\<open>fe80::/10\<close>, its text does not
  start with \<^verbatim>\<open>fe80::\<close>, and the address-data array built for an interface whose one
  manual address is \<^verbatim>\<open>febf::1/64\<close> holds it.
\<close>

theorem link_local_range_counterexample:
  "is_link_local 0xfebf0000000000000000000000000001
   \<and> get_connection_from_interface payload0 eth2 None None =
     Inr [(''connection'',
            [(''id'', Variant ''s'' (PStr ''Supervisor eth2'')),
             (''interface-name'', Variant ''s'' (PStr ''eth2'')),
             (''type'', Variant ''s'' (PStr ''802-3-ethernet'')),
             (''uuid'', Variant ''s'' (PStr ''00000000-0000-4000-8000-000000000000'')),
             (''llmnr'', Variant ''i'' (PInt 2)),
             (''mdns'', Variant ''i'' (PInt 2))]),
           (''ipv4'',
            [(''method'', Variant ''s'' (PStr ''auto'')),
             (''address-data'',
              Variant ''(a{sv})''
               (PList [PDict [(''address'', Variant ''s'' (PStr ''febf::1'')),
                              (''prefix'', Variant ''u'' (PInt 64))]])),
             (''gateway'', Variant ''s'' (PStr ''None''))]),
           (''ipv6'',
            [(''method'', Variant ''s'' (PStr ''manual'')),
             (''dns'', Variant ''aay'' (PList []))]),
           (''802-3-ethernet'',
            [(''assigned-mac-address'', Variant ''s'' (PStr ''preserve''))])]"
  by (simp add: run_simps payload0_def eth2_def auto_config_def is_link_local_def)

text \<open>
  Claim C5, amended. For every interface whose IPv6 block has a manual method (one that
  is neither \<^verbatim>\<open>auto\<close> nor \<^verbatim>\<open>disabled\<close>), the address-data array the function
  builds is the \<^verbatim>\<open>{address, prefix}\<close> entries of the addresses whose
  \<^verbatim>\<open>with_prefixlen\<close> text does not start with \<^verbatim>\<open>fe80::\<close>, in input order, and the
  returned document holds that array as an \<^verbatim>\<open>address-data\<close> field. Every address of
  \<^verbatim>\<open>fe80::/64\<close> has such a text and is left out; every address outside
  \<^verbatim>\<open>fe80::/10\<close> has no such text and is kept.
\<close>

theorem manual_ipv6_address_data:
  assumes run: "get_connection_from_interface env i name_arg uuid_arg = Inr profile"
    and m: "ip_method (ipv6 i) \<noteq> ''auto''" "ip_method (ipv6 i) \<noteq> ''disabled''"
  shows "adressdata6 (address (ipv6 i))
           = Inr (map (\<lambda>a. address_entry (str_ipv6 (ip a)) (prefixlen a))
                    (filter (\<lambda>a. \<not> prefix ''fe80::'' (with_prefixlen6 a)) (address (ipv6 i))))
       \<and> (\<exists>sec \<in> snd ` set profile.
             map_of sec ''address-data''
               = Some (Variant ''(a{sv})''
                   (PList (map (\<lambda>a. address_entry (str_ipv6 (ip a)) (prefixlen a))
                             (filter (\<lambda>a. \<not> prefix ''fe80::'' (with_prefixlen6 a))
                                (address (ipv6 i)))))))
       \<and> (\<forall>a. ip a div 2 ^ 64 = 0xfe80000000000000 \<longrightarrow> prefix ''fe80::'' (with_prefixlen6 a))
       \<and> (\<forall>a. ip a < 2 ^ 128 \<and> \<not> is_link_local (ip a) \<longrightarrow> \<not> prefix ''fe80::'' (with_prefixlen6 a))"
proof -
  from ipv6_section_manual(2) [OF run m] obtain sec where
    sec: "map_of profile ''ipv4'' = Some sec"
      "map_of sec ''address-data''
               = Some (Variant ''(a{sv})''
                   (PList (map (\<lambda>a. address_entry (str_ipv6 (ip a)) (prefixlen a))
                             (filter (\<lambda>a. \<not> prefix ''fe80::'' (with_prefixlen6 a))
                                (address (ipv6 i))))))"
    by blast
  from sec(1) have "(''ipv4'', sec) \<in> set profile" by (rule map_of_SomeD)
  then have "sec \<in> snd ` set profile" by force
  with sec(2) show ?thesis
    using adressdata6_eq fe80_64_excluded excluded_is_link_local by blast
qed

theorem manual_ipv6_address_data_witness:
  "ip_method (ipv6 eth1) = ''manual''
   \<and> (\<exists>profile. get_connection_from_interface payload0 eth1 None None = Inr profile)
   \<and> adressdata6 (address (ipv6 eth1)) = Inr [address_entry ''2001:db8::1'' 64]
   \<and> prefix ''fe80::'' (with_prefixlen6 \<lparr>ip = 0xfe800000000000000000000000000001, prefixlen = 64\<rparr>)
   \<and> \<not> is_link_local 0x20010db8000000000000000000000001
   \<and> \<not> prefix ''fe80::'' (with_prefixlen6 \<lparr>ip = 0x20010db8000000000000000000000001, prefixlen = 64\<rparr>)"
proof -
  obtain profile where run: "get_connection_from_interface payload0 eth1 None None = Inr profile"
    using get_connection_returns [of eth1 payload0 None None]
    by (auto simp: valid_interface_def eth1_def)
  have m: "ip_method (ipv6 eth1) \<noteq> ''auto''" "ip_method (ipv6 eth1) \<noteq> ''disabled''"
    by (simp_all add: eth1_def)
  note t = manual_ipv6_address_data [OF run m]
  let ?ll = "\<lparr>ip = 0xfe800000000000000000000000000001, prefixlen = 64\<rparr>"
  let ?ga = "\<lparr>ip = 0x20010db8000000000000000000000001, prefixlen = 64\<rparr>"
  have c0: "ip_method (ipv6 eth1) = ''manual''" by (simp add: eth1_def)
  have c1: "adressdata6 (address (ipv6 eth1)) = Inr [address_entry ''2001:db8::1'' 64]"
    by (simp add: eth1_def str_ipv6_def hextets_def compress_hextets_def hex_nat.simps
          digit_char_def str_nat.simps with_prefixlen6_def upt_rec Let_def py_int_def
          digit_val_def)
  from t have "ip ?ll div 2 ^ 64 = 0xfe80000000000000 \<longrightarrow> prefix ''fe80::'' (with_prefixlen6 ?ll)"
    by blast
  then have c2: "prefix ''fe80::'' (with_prefixlen6 ?ll)" by simp
  have c3: "\<not> is_link_local 0x20010db8000000000000000000000001"
    by (simp add: is_link_local_def)
  from t have "ip ?ga < 2 ^ 128 \<and> \<not> is_link_local (ip ?ga) \<longrightarrow> \<not> prefix ''fe80::'' (with_prefixlen6 ?ga)"
    by blast
  with c3 have c4: "\<not> prefix ''fe80::'' (with_prefixlen6 ?ga)" by simp
  from run have c5: "\<exists>profile. get_connection_from_interface payload0 eth1 None None = Inr profile"
    by blast
  from c0 c1 c2 c3 c4 c5 show ?thesis by blast
qed

subsection \<open>The wireless sections\<close>

lemma security_dict:
  "heap fr R_wireless_security = [] \<Longrightarrow> auth w \<noteq> ''open'' \<Longrightarrow>
   heap (wireless_security_block w fr) R_wireless_security =
     (if auth w = ''wep'' then
        [(''auth-alg'', Variant ''s'' (PStr ''none'')), (''key-mgmt'', Variant ''s'' (PStr ''open''))]
      else if auth w = ''wpa-psk'' then
        [(''auth-alg'', Variant ''s'' (PStr ''open'')), (''key-mgmt'', Variant ''s'' (PStr ''wpa-psk''))]
      else [])
     @ (case psk w of None \<Rightarrow> [] | Some k \<Rightarrow> if k = [] then [] else [(''psk'', Variant ''s'' (PStr k))])"
  by (simp add: wireless_security_block_def Let_def heap_assign split: option.splits)

text \<open>
  Claim C8. For an interface of type wireless the function returns a document only when
  the wifi block is there, and in the returned document: with \<^verbatim>\<open>auth\<close> \<^verbatim>\<open>open\<close>
  there is no section \<^verbatim>\<open>802-11-wireless-security\<close>; with any other \<^verbatim>\<open>auth\<close> there
  is one, in which \<^verbatim>\<open>wep\<close> gives \<^verbatim>\<open>auth-alg\<close> \<^verbatim>\<open>none\<close> and \<^verbatim>\<open>key-mgmt\<close>
  \<^verbatim>\<open>open\<close>, \<^verbatim>\<open>wpa-psk\<close> gives \<^verbatim>\<open>auth-alg\<close> \<^verbatim>\<open>open\<close> and \<^verbatim>\<open>key-mgmt\<close>
  \<^verbatim>\<open>wpa-psk\<close>, and the field \<^verbatim>\<open>psk\<close> is present exactly when the wifi block has
  a pre-shared key that is not empty, with that key as its value.
\<close>

theorem wireless_security_sections:
  assumes run: "get_connection_from_interface env i name_arg uuid_arg = Inr profile"
    and wl: "type i = ''wireless''"
  shows "\<exists>w. wifi i = Some w
       \<and> (auth w = ''open'' \<longrightarrow> map_of profile ''802-11-wireless-security'' = None)
       \<and> (auth w \<noteq> ''open'' \<longrightarrow>
            (\<exists>sec. map_of profile ''802-11-wireless-security'' = Some sec
               \<and> (auth w = ''wep'' \<longrightarrow>
                    map_of sec ''auth-alg'' = Some (Variant ''s'' (PStr ''none''))
                    \<and> map_of sec ''key-mgmt'' = Some (Variant ''s'' (PStr ''open'')))
               \<and> (auth w = ''wpa-psk'' \<longrightarrow>
                    map_of sec ''auth-alg'' = Some (Variant ''s'' (PStr ''open''))
                    \<and> map_of sec ''key-mgmt'' = Some (Variant ''s'' (PStr ''wpa-psk'')))
               \<and> ((map_of sec ''psk'' \<noteq> None) = (\<exists>k. psk w = Some k \<and> k \<noteq> []))
               \<and> (\<forall>k. psk w = Some k \<and> k \<noteq> [] \<longrightarrow> map_of sec ''psk'' = Some (Variant ''s'' (PStr k)))))"
proof -
  from run obtain name' fr2 fr3 fr4 where
    n: "generate_name i name_arg = Inr name'"
    and b4: "ipv4_block env i (connection_block i name' (generate_uuid env uuid_arg) \<lparr>conn = [], heap = (\<lambda>_. [])\<rparr>) = Inr fr2"
    and b6: "ipv6_block env i fr2 = Inr fr3"
    and bm: "medium_block i fr3 = Inr fr4"
    and p: "profile = resolve fr4"
    by (rule get_connection_frames)
  let ?fr1 = "connection_block i name' (generate_uuid env uuid_arg) \<lparr>conn = [], heap = (\<lambda>_. [])\<rparr>"
  have c3: "conn fr3 = [(''connection'', R_connection), (''ipv4'', R_ipv4), (''ipv6'', R_ipv6)]"
    using ipv6_block_conn [OF b6] ipv4_block_conn [OF b4] by (simp add: connection_block_def)
  have h3: "heap fr3 R_wireless_security = []" "heap fr3 R_wireless = []"
    using ipv6_block_heap [OF b6, of R_wireless_security] ipv4_block_heap [OF b4, of R_wireless_security]
       ipv6_block_heap [OF b6, of R_wireless] ipv4_block_heap [OF b4, of R_wireless]
    by (simp_all add: connection_block_def heap_assign)
  from bm wl obtain w where w: "wifi i = Some w"
    by (auto simp: medium_block_def split: option.splits)
  let ?fr = "link ''802-11-wireless'' R_wireless
               (assign R_wireless
                  [(''assigned-mac-address'', Variant ''s'' (PStr ''preserve'')),
                   (''ssid'', Variant ''ay'' (PBytes (utf8_encode (ssid w)))),
                   (''mode'', Variant ''s'' (PStr ''infrastructure'')),
                   (''powersave'', Variant ''i'' (PInt 1))] fr3)"
  from bm wl w have fr4: "fr4 = wireless_security_block w ?fr"
    by (simp add: medium_block_def)
  have hs: "heap ?fr R_wireless_security = []"
    using h3 by (simp add: heap_assign)
  have open_case: "auth w = ''open'' \<Longrightarrow> map_of profile ''802-11-wireless-security'' = None"
    by (simp add: p map_of_resolve fr4 conn_wireless_security_block c3)
  have sec: "auth w \<noteq> ''open'' \<Longrightarrow>
      map_of profile ''802-11-wireless-security'' = Some (heap (wireless_security_block w ?fr) R_wireless_security)"
    by (simp add: p map_of_resolve fr4 conn_wireless_security_block c3 map_of_setitem)
  have closed_case: "auth w \<noteq> ''open'' \<Longrightarrow>
      (\<exists>sec. map_of profile ''802-11-wireless-security'' = Some sec
               \<and> (auth w = ''wep'' \<longrightarrow>
                    map_of sec ''auth-alg'' = Some (Variant ''s'' (PStr ''none''))
                    \<and> map_of sec ''key-mgmt'' = Some (Variant ''s'' (PStr ''open'')))
               \<and> (auth w = ''wpa-psk'' \<longrightarrow>
                    map_of sec ''auth-alg'' = Some (Variant ''s'' (PStr ''open''))
                    \<and> map_of sec ''key-mgmt'' = Some (Variant ''s'' (PStr ''wpa-psk'')))
               \<and> ((map_of sec ''psk'' \<noteq> None) = (\<exists>k. psk w = Some k \<and> k \<noteq> []))
               \<and> (\<forall>k. psk w = Some k \<and> k \<noteq> [] \<longrightarrow> map_of sec ''psk'' = Some (Variant ''s'' (PStr k))))"
  proof -
    assume no: "auth w \<noteq> ''open''"
    show ?thesis
      unfolding sec [OF no] security_dict [OF hs no]
      by (cases "psk w") auto
  qed
  from w open_case closed_case show ?thesis by blast
qed

theorem wireless_security_sections_witness:
  "type wlan0 = ''wireless''
   \<and> wifi wlan0 = Some \<lparr>ssid = ''a'', auth = ''wpa-psk'', psk = Some ''secret''\<rparr>
   \<and> get_connection_from_interface payload0 wlan0 None None
       = Inr [(''connection'',
               [(''id'', Variant ''s'' (PStr ''Supervisor wlan0'')),
                (''interface-name'', Variant ''s'' (PStr ''wlan0'')),
                (''type'', Variant ''s'' (PStr ''802-11-wireless'')),
                (''uuid'', Variant ''s'' (PStr ''00000000-0000-4000-8000-000000000000'')),
                (''llmnr'', Variant ''i'' (PInt 2)),
                (''mdns'', Variant ''i'' (PInt 2))]),
              (''ipv4'', [(''method'', Variant ''s'' (PStr ''auto''))]),
              (''ipv6'', [(''method'', Variant ''s'' (PStr ''auto''))]),
              (''802-11-wireless'',
               [(''assigned-mac-address'', Variant ''s'' (PStr ''preserve'')),
                (''ssid'', Variant ''ay'' (PBytes [97])),
                (''mode'', Variant ''s'' (PStr ''infrastructure'')),
                (''powersave'', Variant ''i'' (PInt 1)),
                (''security'', Variant ''s'' (PStr ''802-11-wireless-security''))]),
              (''802-11-wireless-security'',
               [(''auth-alg'', Variant ''s'' (PStr ''open'')),
                (''key-mgmt'', Variant ''s'' (PStr ''wpa-psk'')),
                (''psk'', Variant ''s'' (PStr ''secret''))])]"
proof -
  have run: "get_connection_from_interface payload0 wlan0 None None
       = Inr [(''connection'',
               [(''id'', Variant ''s'' (PStr ''Supervisor wlan0'')),
                (''interface-name'', Variant ''s'' (PStr ''wlan0'')),
                (''type'', Variant ''s'' (PStr ''802-11-wireless'')),
                (''uuid'', Variant ''s'' (PStr ''00000000-0000-4000-8000-000000000000'')),
                (''llmnr'', Variant ''i'' (PInt 2)),
                (''mdns'', Variant ''i'' (PInt 2))]),
              (''ipv4'', [(''method'', Variant ''s'' (PStr ''auto''))]),
              (''ipv6'', [(''method'', Variant ''s'' (PStr ''auto''))]),
              (''802-11-wireless'',
               [(''assigned-mac-address'', Variant ''s'' (PStr ''preserve'')),
                (''ssid'', Variant ''ay'' (PBytes [97])),
                (''mode'', Variant ''s'' (PStr ''infrastructure'')),
                (''powersave'', Variant ''i'' (PInt 1)),
                (''security'', Variant ''s'' (PStr ''802-11-wireless-security''))]),
              (''802-11-wireless-security'',
               [(''auth-alg'', Variant ''s'' (PStr ''open'')),
                (''key-mgmt'', Variant ''s'' (PStr ''wpa-psk'')),
                (''psk'', Variant ''s'' (PStr ''secret''))])]"
    by (simp add: run_simps payload0_def wlan0_def auto_config_def)
  have wl: "type wlan0 = ''wireless''" by (simp add: wlan0_def)
  have w: "wifi wlan0 = Some \<lparr>ssid = ''a'', auth = ''wpa-psk'', psk = Some ''secret''\<rparr>"
    by (simp add: wlan0_def)
  from wireless_security_sections [OF run wl] run wl w show ?thesis by simp
qed

subsection \<open>The template payload and the interface of the caller\<close>

text \<open>
  Claim C6 as stated fails: after a call with an interface whose SSID is \<^verbatim>\<open>a\<close> the
  caller's object has the SSID \<^verbatim>\<open>0x61\<close>, and a second call with the same object
  renders the SSID \<^verbatim>\<open>0x30, 0x78, 0x36, 0x31\<close>, with a uuid of its own draw as well as
  with the same uuid handed to both calls.
\<close>

theorem ssid_rewrite_counterexample:
  "interface_update_payload payload0 wlan0 None None
     = (Inr ''id=Supervisor wlan0 uuid=00000000-0000-4000-8000-000000000000 ssid=0x61'',
        wlan0\<lparr>wifi := Some \<lparr>ssid = ''0x61'', auth = ''wpa-psk'', psk = Some ''secret''\<rparr>\<rparr>)
   \<and> snd (interface_update_payload payload0 wlan0 None None) \<noteq> wlan0
   \<and> fst (interface_update_payload payload1
             (snd (interface_update_payload payload0 wlan0 None None)) None None)
     = Inr ''id=Supervisor wlan0 uuid=11111111-1111-4111-8111-111111111111 ssid=0x30, 0x78, 0x36, 0x31''
   \<and> fst (interface_update_payload payload0 wlan0 None (Some ''abc''))
     = Inr ''id=Supervisor wlan0 uuid=abc ssid=0x61''
   \<and> fst (interface_update_payload payload1
             (snd (interface_update_payload payload0 wlan0 None (Some ''abc''))) None (Some ''abc''))
     = Inr ''id=Supervisor wlan0 uuid=abc ssid=0x30, 0x78, 0x36, 0x31''"
  by (simp add: interface_update_payload_def generate_name_def generate_uuid_def fix_ssid_def
        utf8_encode_def hex_byte_def digit_char_def payload0_def payload1_def wlan0_def
        stand_in_template_def Let_def)

text \<open>
  Claim C6, amended. A call leaves every attribute of the caller's interface but the
  SSID as it was: name, type, both address blocks, the vlan block, and \<^verbatim>\<open>auth\<close> and
  \<^verbatim>\<open>psk\<close> of the wifi block. An interface without wifi block is unchanged, and so is
  any interface when the load of the template or the derivation of the name raises.
  When there is a wifi block and both go through, the SSID of the caller's object is
  the hexadecimal form of the SSID it had, and the result of the call is what the
  render of the template gives for the interface in that state, a text or an
  exception. A second call with an interface that has no wifi block, the same template
  and the same uuid handed in gives the same result, whatever the second call would
  have drawn.
\<close>

theorem interface_update_payload_effect:
  assumes call: "interface_update_payload env i name_arg uuid_arg = (r, i')"
  shows "name i' = name i \<and> type i' = type i \<and> ipv4 i' = ipv4 i \<and> ipv6 i' = ipv6 i
       \<and> vlan i' = vlan i
       \<and> map_option auth (wifi i') = map_option auth (wifi i)
       \<and> map_option psk (wifi i') = map_option psk (wifi i)
       \<and> (wifi i = None \<longrightarrow> i' = i)
       \<and> (\<forall>e. template_load env = Some e \<longrightarrow> i' = i \<and> r = Inl e)
       \<and> (\<forall>e. template_load env = None \<and> generate_name i name_arg = Inl e \<longrightarrow>
            i' = i \<and> r = Inl e)
       \<and> (\<forall>w name'. template_load env = None \<and> wifi i = Some w
                  \<and> generate_name i name_arg = Inr name' \<longrightarrow>
            map_option ssid (wifi i') = Some (fix_ssid (ssid w))
            \<and> r = template_render env i' name' (generate_uuid env uuid_arg))
       \<and> (\<forall>env2 u. wifi i = None \<and> uuid_arg = Some u \<and> u \<noteq> []
                  \<and> template_load env2 = template_load env
                  \<and> template_render env2 = template_render env \<longrightarrow>
            interface_update_payload env2 i' name_arg uuid_arg = (r, i'))"
proof -
  have fields: "name i' = name i \<and> type i' = type i \<and> ipv4 i' = ipv4 i \<and> ipv6 i' = ipv6 i
       \<and> vlan i' = vlan i
       \<and> map_option auth (wifi i') = map_option auth (wifi i)
       \<and> map_option psk (wifi i') = map_option psk (wifi i)"
    using call
    by (auto simp: interface_update_payload_def Let_def split: sum.splits option.splits)
  have nowifi: "wifi i = None \<longrightarrow> i' = i"
    using call
    by (auto simp: interface_update_payload_def Let_def split: sum.splits option.splits)
  have load: "\<forall>e. template_load env = Some e \<longrightarrow> i' = i \<and> r = Inl e"
    using call by (auto simp: interface_update_payload_def)
  have nm: "\<forall>e. template_load env = None \<and> generate_name i name_arg = Inl e \<longrightarrow>
            i' = i \<and> r = Inl e"
    using call by (auto simp: interface_update_payload_def Let_def)
  have rewritten: "\<forall>w name'. template_load env = None \<and> wifi i = Some w
                  \<and> generate_name i name_arg = Inr name' \<longrightarrow>
            map_option ssid (wifi i') = Some (fix_ssid (ssid w))
            \<and> r = template_render env i' name' (generate_uuid env uuid_arg)"
    using call by (auto simp: interface_update_payload_def Let_def)
  have again: "\<forall>env2 u. wifi i = None \<and> uuid_arg = Some u \<and> u \<noteq> []
                  \<and> template_load env2 = template_load env
                  \<and> template_render env2 = template_render env \<longrightarrow>
            interface_update_payload env2 i' name_arg uuid_arg = (r, i')"
    using call
    by (auto simp: interface_update_payload_def generate_uuid_def Let_def
             split: sum.splits option.splits)
  from fields nowifi load nm rewritten again show ?thesis by blast
qed

theorem interface_update_payload_effect_witness:
  "interface_update_payload payload0 wlan0 None None
     = (Inr ''id=Supervisor wlan0 uuid=00000000-0000-4000-8000-000000000000 ssid=0x61'',
        wlan0\<lparr>wifi := Some \<lparr>ssid = ''0x61'', auth = ''wpa-psk'', psk = Some ''secret''\<rparr>\<rparr>)
   \<and> template_load payload0 = None
   \<and> wifi wlan0 = Some \<lparr>ssid = ''a'', auth = ''wpa-psk'', psk = Some ''secret''\<rparr>
   \<and> generate_name wlan0 None = Inr ''Supervisor wlan0''
   \<and> fix_ssid ''a'' = ''0x61''
   \<and> interface_update_payload render_raises wlan0 None None
       = (Inl (OtherError ''UndefinedError''),
          wlan0\<lparr>wifi := Some \<lparr>ssid = ''0x61'', auth = ''wpa-psk'', psk = Some ''secret''\<rparr>\<rparr>)
   \<and> wifi eth0 = None
   \<and> interface_update_payload payload0 eth0 None (Some ''abc'')
       = (Inr ''id=Supervisor eth0 uuid=abc ssid='', eth0)
   \<and> template_load payload1 = template_load payload0
   \<and> template_render payload1 = template_render payload0
   \<and> interface_update_payload payload1 eth0 None (Some ''abc'')
       = (Inr ''id=Supervisor eth0 uuid=abc ssid='', eth0)"
proof -
  have c: "interface_update_payload payload0 wlan0 None None
     = (Inr ''id=Supervisor wlan0 uuid=00000000-0000-4000-8000-000000000000 ssid=0x61'',
        wlan0\<lparr>wifi := Some \<lparr>ssid = ''0x61'', auth = ''wpa-psk'', psk = Some ''secret''\<rparr>\<rparr>)"
    by (simp add: interface_update_payload_def generate_name_def generate_uuid_def fix_ssid_def
        utf8_encode_def hex_byte_def digit_char_def payload0_def wlan0_def stand_in_template_def
        Let_def)
  have x: "interface_update_payload render_raises wlan0 None None
       = (Inl (OtherError ''UndefinedError''),
          wlan0\<lparr>wifi := Some \<lparr>ssid = ''0x61'', auth = ''wpa-psk'', psk = Some ''secret''\<rparr>\<rparr>)"
    by (simp add: interface_update_payload_def generate_name_def generate_uuid_def fix_ssid_def
        utf8_encode_def hex_byte_def digit_char_def render_raises_def payload0_def wlan0_def
        Let_def)
  have d: "interface_update_payload payload0 eth0 None (Some ''abc'')
       = (Inr ''id=Supervisor eth0 uuid=abc ssid='', eth0)"
    by (simp add: interface_update_payload_def generate_name_def generate_uuid_def
        payload0_def eth0_def stand_in_template_def Let_def)
  have e: "wifi eth0 = None" by (simp add: eth0_def)
  have l: "template_load payload1 = template_load payload0"
    "template_render payload1 = template_render payload0" "template_load payload0 = None"
    by (simp_all add: payload1_def payload0_def)
  have w: "wifi wlan0 = Some \<lparr>ssid = ''a'', auth = ''wpa-psk'', psk = Some ''secret''\<rparr>"
    "generate_name wlan0 None = Inr ''Supervisor wlan0''"
    by (simp_all add: wlan0_def generate_name_def)
  have f: "fix_ssid ''a'' = ''0x61''"
    by (simp add: fix_ssid_def utf8_encode_def hex_byte_def digit_char_def)
  from interface_update_payload_effect [OF d] e l
  have again: "interface_update_payload payload1 eth0 None (Some ''abc'')
       = (Inr ''id=Supervisor eth0 uuid=abc ssid='', eth0)"
    by blast
  from c x d e l w f again show ?thesis by blast
qed

end
